theory Spec2Isabelle
  imports
    Main
    "HOL-Library.Multiset"
    "HOL-Library.Char_ord"
    "HOL-Library.List_Lexorder"
begin

section \<open>Go values shared by the packages\<close>

text \<open>
  A Go call either returns or panics. \<open>Panic msg\<close> is a run-time panic carrying its
  message, \<open>Ret v\<close> a normal return of \<open>v\<close>.
\<close>

datatype 'a outcome = Panic string | Ret 'a

text \<open>
  Go \<open>error\<close> values. \<open>ErrNew msg\<close> is \<open>errors.New(msg)\<close>. \<open>Errorf format args e\<close> is
  \<open>fmt.Errorf(format, args..., e)\<close>, where the verb \<open>%w\<close> of the format wraps \<open>e\<close>: the
  format is kept as the source writes it, with its string arguments beside it, so that
  no formatting is modelled. \<open>ErrTaglessImage\<close> is the package-level sentinel of the
  extractor (compared by identity in Go, hence a constructor of its own) and
  \<open>ErrExternal msg\<close> is an error produced by a collaborator outside the repository.
\<close>

datatype err = ErrNew string | Errorf string "string list" err | ErrTaglessImage | ErrExternal string

section \<open>pkg/types/csv\_rbac.go: the rule-filter DSL\<close>

text \<open>\<open>rbac.PolicyRule\<close>: the five attribute sequences the filters read.\<close>

record PolicyRule =
  Verbs :: "string list"
  APIGroups :: "string list"
  Resources :: "string list"
  ResourceNames :: "string list"
  NonResourceURLs :: "string list"

record Rule =
  policyRule :: PolicyRule
  name :: string

record Permission =
  ServiceAccountName :: string
  Rules :: "Rule list"

record CSVPermissions =
  ClusterPermissions :: "Permission list"
  Permissions :: "Permission list"

text \<open>\<open>type permissionType string\<close> and \<open>type Operator string\<close>: any string is a value.\<close>

type_synonym permissionType = string
type_synonym Operator = string

definition AllPermissionType :: permissionType where
  "AllPermissionType = ''all''"

definition NameSpacedPermissionType :: permissionType where
  "NameSpacedPermissionType = ''namespaced''"

definition ClusterPermissionType :: permissionType where
  "ClusterPermissionType = ''clusterScoped''"

definition InOperator :: Operator where
  "InOperator = ''IN''"

definition NotInOperator :: Operator where
  "NotInOperator = ''NOT_IN''"

definition EqualsOperator :: Operator where
  "EqualsOperator = ''EQUAL''"

definition NotEqualOperator :: Operator where
  "NotEqualOperator = ''NOT_EQUAL''"

definition ExistsOperator :: Operator where
  "ExistsOperator = ''EXISTS''"

definition DoesNotExistOperator :: Operator where
  "DoesNotExistOperator = ''DOES_NOT_EXIST''"

definition AnyOperator :: Operator where
  "AnyOperator = ''ANY''"

record FilterParams =
  Args :: "string list"
  OperatorName :: Operator

text \<open>\<open>sliceToSet\<close>: the loop storing every item as a key of a \<open>map[string]struct{}\<close>.\<close>

fun sliceToSet_loop :: "string list \<Rightarrow> (string \<rightharpoonup> unit) \<Rightarrow> (string \<rightharpoonup> unit)" where
  "sliceToSet_loop [] res = res"
| "sliceToSet_loop (item # items) res = sliceToSet_loop items (res(item \<mapsto> ()))"

definition sliceToSet :: "string list \<Rightarrow> (string \<rightharpoonup> unit)" where
  "sliceToSet items = sliceToSet_loop items Map.empty"

text \<open>\<open>includes\<close> (here \<open>includes_go\<close>): false at the first item to be present that is no key of the set.\<close>

fun includes_loop :: "(string \<rightharpoonup> unit) \<Rightarrow> string list \<Rightarrow> bool" where
  "includes_loop itemsMap [] = True"
| "includes_loop itemsMap (item # rest) =
     (case itemsMap item of None \<Rightarrow> False | Some _ \<Rightarrow> includes_loop itemsMap rest)"

definition includes_go :: "string list \<Rightarrow> string list \<Rightarrow> bool" where
  "includes_go items itemsToBePresent = includes_loop (sliceToSet items) itemsToBePresent"

text \<open>
  \<open>equal\<close> (here \<open>equal_go\<close>): the length test, then both copies sorted by \<open>sort.Strings\<close> (bytewise
  lexicographic order, the order of \<open>string\<close> here) and compared index by index. The
  indices range over \<open>copyA\<close>; both copies have the same length at that point, so no read
  is out of range.
\<close>

fun equal_loop :: "string list \<Rightarrow> string list \<Rightarrow> nat list \<Rightarrow> bool" where
  "equal_loop copyA copyB [] = True"
| "equal_loop copyA copyB (index # rest) =
     (if copyA ! index \<noteq> copyB ! index then False else equal_loop copyA copyB rest)"

definition equal_go :: "string list \<Rightarrow> string list \<Rightarrow> bool" where
  "equal_go a b =
     (if length a \<noteq> length b then False
      else let copyA = sort a; copyB = sort b
           in equal_loop copyA copyB [0..<length copyA])"

text \<open>\<open>any\<close>: true at the first element of \<open>b\<close> that is a key of the set of \<open>a\<close>.\<close>

fun any_loop :: "(string \<rightharpoonup> unit) \<Rightarrow> string list \<Rightarrow> bool" where
  "any_loop source [] = False"
| "any_loop source (item # rest) =
     (case source item of Some _ \<Rightarrow> True | None \<Rightarrow> any_loop source rest)"

definition any :: "string list \<Rightarrow> string list \<Rightarrow> bool" where
  "any a b = any_loop (sliceToSet a) b"

text \<open>\<open>eval\<close>: the switch over the operator name; the default branch panics.\<close>

definition eval :: "string list \<Rightarrow> FilterParams \<Rightarrow> bool outcome" where
  "eval ruleArgs params =
     (if OperatorName params = InOperator then Ret (includes_go ruleArgs (Args params))
      else if OperatorName params = NotInOperator then Ret (\<not> includes_go ruleArgs (Args params))
      else if OperatorName params = EqualsOperator then Ret (equal_go ruleArgs (Args params))
      else if OperatorName params = NotEqualOperator then Ret (\<not> equal_go ruleArgs (Args params))
      else if OperatorName params = ExistsOperator then Ret (length ruleArgs > 0)
      else if OperatorName params = DoesNotExistOperator then Ret (length ruleArgs = 0)
      else if OperatorName params = AnyOperator then Ret (any ruleArgs (Args params))
      else Panic (''eval: Unsupported operator '' @ OperatorName params))"

text \<open>
  The earlier revision of \<open>eval\<close> (the second \<open>package types\<close> file) takes a
  \<open>*FilterObj\<close>; a nil filter object accepts every rule, the switch is the same.
\<close>

definition eval_FilterObj :: "string list \<Rightarrow> FilterParams option \<Rightarrow> bool outcome" where
  "eval_FilterObj ruleArgs filterObj =
     (case filterObj of
        None \<Rightarrow> Ret True
      | Some obj \<Rightarrow>
          (if OperatorName obj = InOperator then Ret (includes_go ruleArgs (Args obj))
           else if OperatorName obj = NotInOperator then Ret (\<not> includes_go ruleArgs (Args obj))
           else if OperatorName obj = EqualsOperator then Ret (equal_go ruleArgs (Args obj))
           else if OperatorName obj = NotEqualOperator then Ret (\<not> equal_go ruleArgs (Args obj))
           else if OperatorName obj = ExistsOperator then Ret (length ruleArgs > 0)
           else if OperatorName obj = DoesNotExistOperator then Ret (length ruleArgs = 0)
           else if OperatorName obj = AnyOperator then Ret (any ruleArgs (Args obj))
           else Panic (''eval: Unsupported operator '' @ OperatorName obj)))"

text \<open>
  The implementations of the \<open>Filter\<close> interface: one struct per attribute, each
  holding its \<open>Params\<close>. \<open>Filter_apply\<close> is the method \<open>Filter\<close>: the rule when \<open>eval\<close>
  holds of the concerned attribute, nil (\<open>None\<close>) otherwise.
\<close>

datatype Filter =
    APIGroupFilter FilterParams
  | ResourcesFilter FilterParams
  | ResourceNamesFilter FilterParams
  | VerbsFilter FilterParams
  | NonResourceURLsFilter FilterParams

fun Params :: "Filter \<Rightarrow> FilterParams" where
  "Params (APIGroupFilter p) = p"
| "Params (ResourcesFilter p) = p"
| "Params (ResourceNamesFilter p) = p"
| "Params (VerbsFilter p) = p"
| "Params (NonResourceURLsFilter p) = p"

fun concernedRuleAttrs :: "Filter \<Rightarrow> PolicyRule \<Rightarrow> string list" where
  "concernedRuleAttrs (APIGroupFilter p) rule = APIGroups rule"
| "concernedRuleAttrs (ResourcesFilter p) rule = Resources rule"
| "concernedRuleAttrs (ResourceNamesFilter p) rule = ResourceNames rule"
| "concernedRuleAttrs (VerbsFilter p) rule = Verbs rule"
| "concernedRuleAttrs (NonResourceURLsFilter p) rule = NonResourceURLs rule"

definition Filter_apply :: "Filter \<Rightarrow> PolicyRule \<Rightarrow> PolicyRule option outcome" where
  "Filter_apply f rule =
     (case eval (concernedRuleAttrs f rule) (Params f) of
        Panic msg \<Rightarrow> Panic msg
      | Ret True \<Rightarrow> Ret (Some rule)
      | Ret False \<Rightarrow> Ret None)"

record RuleFilter =
  PermissionType :: permissionType
  Filters :: "Filter list"

definition GetRelevantPermissions :: "RuleFilter \<Rightarrow> CSVPermissions \<Rightarrow> Permission list" where
  "GetRelevantPermissions r cp =
     (if PermissionType r = AllPermissionType then ClusterPermissions cp @ Permissions cp
      else if PermissionType r = NameSpacedPermissionType then Permissions cp
      else if PermissionType r = ClusterPermissionType then ClusterPermissions cp
      else [])"

text \<open>
  \<open>RuleFilter.Run\<close>: the rule itself when there is no filter or the rule is nil;
  otherwise nil at the first filter that rejects the rule.
\<close>

fun Run_loop :: "Filter list \<Rightarrow> PolicyRule \<Rightarrow> PolicyRule option outcome" where
  "Run_loop [] rule = Ret (Some rule)"
| "Run_loop (f # fs) rule =
     (case Filter_apply f rule of
        Panic msg \<Rightarrow> Panic msg
      | Ret (Some res) \<Rightarrow> Run_loop fs rule
      | Ret None \<Rightarrow> Ret None)"

definition RuleFilter_Run :: "RuleFilter \<Rightarrow> PolicyRule option \<Rightarrow> PolicyRule option outcome" where
  "RuleFilter_Run r rule =
     (case rule of
        None \<Rightarrow> Ret None
      | Some pr \<Rightarrow> if length (Filters r) = 0 then Ret (Some pr) else Run_loop (Filters r) pr)"

text \<open>
  \<open>CSVPermissions.FilterRules\<close>: the two nested loops appending to \<open>filtered\<close> every rule
  of the relevant permissions that the rule filter keeps.
\<close>

fun FilterRules_rules :: "RuleFilter \<Rightarrow> Rule list \<Rightarrow> Rule list \<Rightarrow> Rule list outcome" where
  "FilterRules_rules ruleFilter [] filtered = Ret filtered"
| "FilterRules_rules ruleFilter (rule # rules) filtered =
     (case RuleFilter_Run ruleFilter (Some (policyRule rule)) of
        Panic msg \<Rightarrow> Panic msg
      | Ret None \<Rightarrow> FilterRules_rules ruleFilter rules filtered
      | Ret (Some res) \<Rightarrow> FilterRules_rules ruleFilter rules (filtered @ [rule]))"

fun FilterRules_perms :: "RuleFilter \<Rightarrow> Permission list \<Rightarrow> Rule list \<Rightarrow> Rule list outcome" where
  "FilterRules_perms ruleFilter [] filtered = Ret filtered"
| "FilterRules_perms ruleFilter (perm # perms) filtered =
     (case FilterRules_rules ruleFilter (Rules perm) filtered of
        Panic msg \<Rightarrow> Panic msg
      | Ret filtered' \<Rightarrow> FilterRules_perms ruleFilter perms filtered')"

definition FilterRules :: "CSVPermissions \<Rightarrow> RuleFilter \<Rightarrow> Rule list outcome" where
  "FilterRules cp ruleFilter =
     FilterRules_perms ruleFilter (GetRelevantPermissions ruleFilter cp) []"

section \<open>The extractor: \<open>MainExtractor\<close> (package extractor)\<close>

text \<open>
  \<open>strings.SplitN(s, sep, n)\<close> for a one-character separator and \<open>n \<ge> 0\<close>: at most
  \<open>n\<close> parts, the last one holding the unsplit rest.
\<close>

primrec SplitN :: "string \<Rightarrow> char \<Rightarrow> nat \<Rightarrow> string list" where
  "SplitN s sep 0 = []"
| "SplitN s sep (Suc k) =
     (if k = 0 then [s]
      else if sep \<in> set s
        then takeWhile (\<lambda>c. c \<noteq> sep) s # SplitN (tl (dropWhile (\<lambda>c. c \<noteq> sep) s)) sep k
        else [s])"

definition isTaglessImage :: "string \<Rightarrow> err option" where
  "isTaglessImage indexImage =
     (let parts = SplitN indexImage CHR '':'' (Suc (Suc 0))
      in if length parts < 2 then Some ErrTaglessImage else None)"

text \<open>
  \<open>validateIndexImage\<close>. \<open>Parse\<close> stands for \<open>imageparser.Parse\<close> of the docker-parser
  library, reduced to the error it returns (\<open>None\<close> is nil).
\<close>

definition validateIndexImage :: "(string \<Rightarrow> err option) \<Rightarrow> string \<Rightarrow> err option" where
  "validateIndexImage Parse indexImage =
     (if indexImage = [] then Some (ErrNew ''invalid empty indexImage'')
      else (case isTaglessImage indexImage of
        Some e \<Rightarrow> Some e
      | None \<Rightarrow>
          (case Parse indexImage of
             Some e \<Rightarrow> Some (Errorf ''can't parse indexImage '%s', got %w'' [indexImage] e)
           | None \<Rightarrow> None)))"

text \<open>\<open>errors.Is\<close>: the error itself or an error it wraps is the target.\<close>

fun errors_Is :: "err \<Rightarrow> err \<Rightarrow> bool" where
  "errors_Is (Errorf format args e) target =
     (if Errorf format args e = target then True else errors_Is e target)"
| "errors_Is e target = (e = target)"

text \<open>
  \<open>extractBundlesConcurrent\<close>. The state the goroutines share is the pre-sized slice
  \<open>res\<close> (every slot nil, \<open>None\<close>) and the error of the \<open>errgroup.Group\<close>, which keeps
  the first error reported to it (\<open>errOnce\<close>). The unit of index \<open>i\<close> fetches
  \<open>bundleImages[i]\<close> with \<open>Extract\<close> (the bundle extractor, a collaborator) and either
  writes slot \<open>i\<close> or reports its error. The group is created with
  \<open>new(errgroup.Group)\<close>: it carries no context, and \<open>cancel\<close> is called only after
  \<open>Wait\<close> has returned, so no fetch is cancelled by a sibling. \<open>Wait\<close> returns when
  every unit has finished; \<open>order\<close> is the order in which the units finish, a
  permutation of the indices that the scheduler chooses.
\<close>

record 'b group_state =
  res :: "'b option list"
  group_err :: "err option"

definition unit_step ::
  "(string \<Rightarrow> err + 'b) \<Rightarrow> string list \<Rightarrow> nat \<Rightarrow> 'b group_state \<Rightarrow> 'b group_state" where
  "unit_step Extract bundleImages i st =
     (case Extract (bundleImages ! i) of
        Inr bundle \<Rightarrow> st\<lparr>res := (res st)[i := Some bundle]\<rparr>
      | Inl e \<Rightarrow> (case group_err st of None \<Rightarrow> st\<lparr>group_err := Some e\<rparr> | Some first \<Rightarrow> st))"

text \<open>The result \<open>(nil, err)\<close> is \<open>Inl err\<close>; \<open>(res, nil)\<close> is \<open>Inr res\<close>.\<close>

definition extractBundlesConcurrent ::
  "(string \<Rightarrow> err + 'b) \<Rightarrow> string list \<Rightarrow> nat list \<Rightarrow> err + 'b option list" where
  "extractBundlesConcurrent Extract bundleImages order =
     (let st0 = \<lparr>res = replicate (length bundleImages) None, group_err = None\<rparr>;
          st = fold (unit_step Extract bundleImages) order st0
      in case group_err st of Some e \<Rightarrow> Inl e | None \<Rightarrow> Inr (res st))"

text \<open>
  \<open>ExtractBundles\<close> and \<open>ExtractAllBundles\<close>. \<open>ExtractBundleImages\<close> and
  \<open>ExtractAllBundleImages\<close> are the methods of the index extractor, a collaborator.
  A tagless image is skipped: \<open>(nil, nil)\<close>, the empty bundle list and no error.
\<close>

definition ExtractBundles ::
  "(string \<Rightarrow> err option) \<Rightarrow> (string \<Rightarrow> string \<Rightarrow> err + string list) \<Rightarrow> (string \<Rightarrow> err + 'b)
     \<Rightarrow> nat list \<Rightarrow> string \<Rightarrow> string \<Rightarrow> err + 'b option list" where
  "ExtractBundles Parse ExtractBundleImages Extract order indexImage pkgName =
     (case validateIndexImage Parse indexImage of
        Some e \<Rightarrow> (if errors_Is e ErrTaglessImage then Inr [] else Inl e)
      | None \<Rightarrow>
          (if pkgName = [] then Inl (ErrNew ''invalid empty pkgName'')
           else (case ExtractBundleImages indexImage pkgName of
             Inl e \<Rightarrow> Inl e
           | Inr bundleImages \<Rightarrow> extractBundlesConcurrent Extract bundleImages order)))"

definition ExtractAllBundles ::
  "(string \<Rightarrow> err option) \<Rightarrow> (string \<Rightarrow> err + string list) \<Rightarrow> (string \<Rightarrow> err + 'b)
     \<Rightarrow> nat list \<Rightarrow> string \<Rightarrow> err + 'b option list" where
  "ExtractAllBundles Parse ExtractAllBundleImages Extract order indexImage =
     (case validateIndexImage Parse indexImage of
        Some e \<Rightarrow> (if errors_Is e ErrTaglessImage then Inr [] else Inl e)
      | None \<Rightarrow>
          (case ExtractAllBundleImages indexImage of
             Inl e \<Rightarrow> Inl e
           | Inr bundleImages \<Rightarrow> extractBundlesConcurrent Extract bundleImages order))"

section \<open>cmd/mtcli/validate/cmd.go: the validator filter of the command line\<close>

text \<open>
  Modelled from the spec: the filter algebra of package \<open>validator\<close>, which is not
  among the sources. The spec gives the primitives \<open>NoFilter\<close>, \<open>FilterCodes\<close>,
  \<open>FilterStages\<close> and the combinators \<open>And\<close>, \<open>Or\<close>, \<open>Not\<close>; a filter is kept here
  as the term built from them, so that the filter \<open>generateFilter\<close> returns can be read
  off. \<open>'c\<close> is \<open>validator.Code\<close> and \<open>'s\<close> is \<open>validator.Stage\<close>.
\<close>

datatype ('c, 's) validator_Filter =
    NoFilter
  | FilterCodes "'c list"
  | FilterStages "'s list"
  | And_Filter "('c, 's) validator_Filter" "('c, 's) validator_Filter"
  | Or_Filter "('c, 's) validator_Filter" "('c, 's) validator_Filter"
  | Not_Filter "('c, 's) validator_Filter"

text \<open>\<open>strings.Split(s, sep)\<close> for a one-character separator.\<close>

fun Split :: "string \<Rightarrow> char \<Rightarrow> string list" where
  "Split [] sep = [[]]"
| "Split (c # cs) sep =
     (if c = sep then [] # Split cs sep
      else (case Split cs sep of
              [] \<Rightarrow> [[c]]
            | part # parts \<Rightarrow> (c # part) # parts))"

text \<open>
  \<open>parseCodeList\<close> and \<open>parseStageList\<close>: every comma-separated item is parsed by
  \<open>validator.ParseCode\<close> (\<open>validator.ParseStage\<close>), a parameter here; the first item that
  does not parse ends the loop with the error wrapped by \<open>fmt.Errorf\<close>, whose format is
  the parameter \<open>format\<close> and whose string argument is the whole list.
\<close>

fun parseList_loop ::
  "(string \<Rightarrow> err + 'a) \<Rightarrow> string \<Rightarrow> string \<Rightarrow> string list \<Rightarrow> 'a list \<Rightarrow> err + 'a list" where
  "parseList_loop parseItem format maybeList [] acc = Inr acc"
| "parseList_loop parseItem format maybeList (s # rawStrings) acc =
     (case parseItem s of
        Inl e \<Rightarrow> Inl (Errorf format [maybeList] e)
      | Inr c \<Rightarrow> parseList_loop parseItem format maybeList rawStrings (acc @ [c]))"

definition parseCodeList :: "(string \<Rightarrow> err + 'c) \<Rightarrow> string \<Rightarrow> err + 'c list" where
  "parseCodeList ParseCode maybeList =
     parseList_loop ParseCode ''invalid code list '%s': %w'' maybeList (Split maybeList CHR '','') []"

definition parseStageList :: "(string \<Rightarrow> err + 's) \<Rightarrow> string \<Rightarrow> err + 's list" where
  "parseStageList ParseStage maybeList =
     parseList_loop ParseStage ''invalid stage list %q: %w'' maybeList (Split maybeList CHR '','') []"

text \<open>
  \<open>generateFilter\<close>. The variable \<open>filter\<close> is threaded through the three \<open>if\<close>
  statements: \<open>afterDisabled\<close> and \<open>afterEnabled\<close> are its values after the first and
  the second. The result \<open>(nil, nil)\<close> is \<open>Inr None\<close>.
\<close>

definition generateFilter ::
  "(string \<Rightarrow> err + 'c) \<Rightarrow> (string \<Rightarrow> err + 's) \<Rightarrow> string \<Rightarrow> string \<Rightarrow> string
     \<Rightarrow> err + ('c, 's) validator_Filter option" where
  "generateFilter ParseCode ParseStage disabled enabled stages =
     (if disabled = [] \<and> enabled = [] \<and> stages = [] then Inr None
      else
        (case (if disabled \<noteq> []
               then (case parseCodeList ParseCode disabled of
                       Inl e \<Rightarrow> Inl (Errorf ''unable to process '--disabled' option argument: %w'' [] e)
                     | Inr codes \<Rightarrow> Inr (Not_Filter (FilterCodes codes)))
               else Inr NoFilter) of
           Inl e \<Rightarrow> Inl e
         | Inr afterDisabled \<Rightarrow>
             (case (if enabled \<noteq> []
                    then (case parseCodeList ParseCode enabled of
                            Inl e \<Rightarrow> Inl (Errorf ''unable to process '--enabled' option argument: %w'' [] e)
                          | Inr codes \<Rightarrow> Inr (FilterCodes codes))
                    else Inr afterDisabled) of
                Inl e \<Rightarrow> Inl e
              | Inr afterEnabled \<Rightarrow>
                  (if stages \<noteq> []
                   then (case parseStageList ParseStage stages of
                           Inl e \<Rightarrow> Inl (Errorf ''unable to process '--stages' option argument: %w'' [] e)
                         | Inr stgs \<Rightarrow> Inr (Some (And_Filter afterEnabled (FilterStages stgs))))
                   else Inr (Some afterEnabled)))))"

section \<open>pkg/validator/am0015: the validator \<open>csv_deployments\<close>\<close>

text \<open>
  Modelled from the spec: the tri-state \<open>validator.Result\<close> built by the methods
  \<open>Success\<close>, \<open>Fail\<close> and \<open>Error\<close> of \<open>validator.Base\<close>, which is not among the sources.
\<close>

datatype Result = ResultSuccess | ResultFailure "string list" | ResultError err

text \<open>The result of a check of package \<open>kube\<close>: the fields \<open>Success\<close> and \<open>Reasons\<close>.\<close>

record kube_Result =
  Success :: bool
  Reasons :: "string list"

text \<open>\<open>spec.InstallStrategy.StrategySpec.DeploymentSpecs\<close> is all that \<open>Run\<close> reads of the spec.\<close>

record 'd Spec =
  DeploymentSpecs :: "'d list"

record ('m, 'b) MetaBundle =
  AddonMeta :: 'm
  Bundles :: "'b option list"

text \<open>
  A \<open>*registry.Bundle\<close> is a \<open>'b option\<close> and a \<open>*ClusterServiceVersion\<close> a
  \<open>'c option\<close>, \<open>None\<close> being nil. The methods of the operator-registry library are
  parameters that take their receiver, nil included, and return a Go pair of value and
  error or panic: \<open>CSV\<close> is \<open>Bundle.ClusterServiceVersion\<close>, \<open>GetVersion\<close> is
  \<open>ClusterServiceVersion.GetVersion\<close>. \<open>Compare\<close> is \<open>semver.Compare\<close>.
\<close>

definition getVersion ::
  "('b option \<Rightarrow> ('c option \<times> err option) outcome) \<Rightarrow> ('c option \<Rightarrow> (string \<times> err option) outcome)
     \<Rightarrow> 'b option \<Rightarrow> (err + string) outcome" where
  "getVersion CSV GetVersion bundle =
     (case CSV bundle of
        Panic msg \<Rightarrow> Panic msg
      | Ret (csv, Some e) \<Rightarrow> Ret (Inl e)
      | Ret (csv, None) \<Rightarrow>
          (case GetVersion csv of
             Panic msg \<Rightarrow> Panic msg
           | Ret (version, Some e) \<Rightarrow> Ret (Inl e)
           | Ret (version, None) \<Rightarrow> Ret (Inr (''v'' @ version))))"

fun getLatestBundle_loop ::
  "('b option \<Rightarrow> ('c option \<times> err option) outcome) \<Rightarrow> ('c option \<Rightarrow> (string \<times> err option) outcome)
     \<Rightarrow> (string \<Rightarrow> string \<Rightarrow> int) \<Rightarrow> 'b option \<Rightarrow> 'b option list \<Rightarrow> (err + 'b option) outcome" where
  "getLatestBundle_loop CSV GetVersion Compare latest [] = Ret (Inr latest)"
| "getLatestBundle_loop CSV GetVersion Compare latest (bundle # rest) =
     (case getVersion CSV GetVersion bundle of
        Panic msg \<Rightarrow> Panic msg
      | Ret (Inl e) \<Rightarrow> Ret (Inl e)
      | Ret (Inr currVersion) \<Rightarrow>
          (case getVersion CSV GetVersion latest of
             Panic msg \<Rightarrow> Panic msg
           | Ret (Inl e) \<Rightarrow> Ret (Inl e)
           | Ret (Inr currLatestVersion) \<Rightarrow>
               getLatestBundle_loop CSV GetVersion Compare
                 (if Compare currVersion currLatestVersion = 1 then bundle else latest) rest))"

text \<open>
  \<open>getLatestBundle\<close>: \<open>(nil, err)\<close> is \<open>Inl err\<close> and \<open>(bundle, nil)\<close> is \<open>Inr bundle\<close>.
  On the empty list \<open>bundles[0]\<close> is out of range and panics.
\<close>

definition getLatestBundle ::
  "('b option \<Rightarrow> ('c option \<times> err option) outcome) \<Rightarrow> ('c option \<Rightarrow> (string \<times> err option) outcome)
     \<Rightarrow> (string \<Rightarrow> string \<Rightarrow> int) \<Rightarrow> 'b option list \<Rightarrow> (err + 'b option) outcome" where
  "getLatestBundle CSV GetVersion Compare bundles =
     (if length bundles = 1 then Ret (Inr (bundles ! 0))
      else (case bundles of
              [] \<Rightarrow> Panic ''runtime error: index out of range [0] with length 0''
            | first # rest \<Rightarrow> getLatestBundle_loop CSV GetVersion Compare first rest))"

text \<open>
  \<open>CSVDeployment.Run\<close> of csv\_deployments.go, cut at its three error kube. Each
  check builds a result with \<open>c.Fail\<close> or \<open>c.Error\<close> as an expression statement: the
  value, bound to \<open>dropped\<close> below, is used by nothing, and the next statement runs.

  \<open>Run_lint\<close> is the loop over the deployment specs and the final return; \<open>Lint\<close> is
  the method of the \<open>kube.DeploymentLinter\<close>.
\<close>

fun Run_lint_loop :: "('d \<Rightarrow> kube_Result) \<Rightarrow> 'd list \<Rightarrow> string list \<Rightarrow> string list" where
  "Run_lint_loop Lint [] msgs = msgs"
| "Run_lint_loop Lint (deploymentSpec # rest) msgs =
     Run_lint_loop Lint rest (msgs @ Reasons (Lint deploymentSpec))"

definition Run_lint :: "('d \<Rightarrow> kube_Result) \<Rightarrow> 'd Spec \<Rightarrow> Result outcome" where
  "Run_lint Lint spec =
     (let msgs = Run_lint_loop Lint (DeploymentSpecs spec) []
      in if length msgs > 0 then Ret (ResultFailure msgs) else Ret ResultSuccess)"

text \<open>
  From \<open>json.Unmarshal(csv.Spec, &spec)\<close> on. Reading \<open>csv.Spec\<close> through a nil \<open>csv\<close>
  panics. \<open>Unmarshal\<close> stands for \<open>json.Unmarshal\<close> applied to the \<open>Spec\<close> field of the
  csv: it returns \<open>spec\<close> as the decoder leaves it, and its error.
\<close>

definition Run_unmarshal ::
  "('d \<Rightarrow> kube_Result) \<Rightarrow> ('c \<Rightarrow> 'd Spec \<times> err option) \<Rightarrow> 'c option \<Rightarrow> Result outcome" where
  "Run_unmarshal Lint Unmarshal csv =
     (case csv of
        None \<Rightarrow> Panic ''runtime error: invalid memory address or nil pointer dereference''
      | Some c \<Rightarrow>
          (case Unmarshal c of
             (spec, Some e) \<Rightarrow> (let dropped = ResultError e in Run_lint Lint spec)
           | (spec, None) \<Rightarrow> Run_lint Lint spec))"

text \<open>From \<open>csv, err := bundle.ClusterServiceVersion()\<close> on.\<close>

definition Run_csv ::
  "('d \<Rightarrow> kube_Result) \<Rightarrow> ('b option \<Rightarrow> ('c option \<times> err option) outcome)
     \<Rightarrow> ('c \<Rightarrow> 'd Spec \<times> err option) \<Rightarrow> 'b option \<Rightarrow> Result outcome" where
  "Run_csv Lint CSV Unmarshal bundle =
     (case CSV bundle of
        Panic msg \<Rightarrow> Panic msg
      | Ret (csv, Some e) \<Rightarrow> (let dropped = ResultError e in Run_unmarshal Lint Unmarshal csv)
      | Ret (csv, None) \<Rightarrow> Run_unmarshal Lint Unmarshal csv)"

definition CSVDeployment_Run ::
  "('d \<Rightarrow> kube_Result) \<Rightarrow> ('b option \<Rightarrow> ('c option \<times> err option) outcome)
     \<Rightarrow> ('c option \<Rightarrow> (string \<times> err option) outcome) \<Rightarrow> (string \<Rightarrow> string \<Rightarrow> int)
     \<Rightarrow> ('c \<Rightarrow> 'd Spec \<times> err option) \<Rightarrow> ('m, 'b) MetaBundle \<Rightarrow> Result outcome" where
  "CSVDeployment_Run Lint CSV GetVersion Compare Unmarshal mb =
     (case getLatestBundle CSV GetVersion Compare (Bundles mb) of
        Panic msg \<Rightarrow> Panic msg
      | Ret (Inl e) \<Rightarrow>
          (let dropped = ResultFailure [''Error while checking bundles'']
           in Run_csv Lint CSV Unmarshal None)
      | Ret (Inr bundle) \<Rightarrow> Run_csv Lint CSV Unmarshal bundle)"

text \<open>
  The earlier revision of \<open>Run\<close> (the second \<open>package am0015\<close> file) has the same three
  kube; its loop appends, for each deployment, the reasons of those of the four kube
  of package \<open>kube\<close> that did not succeed. The four functions are parameters.
\<close>

record 'd kube_checks =
  HasLivenessProbes :: "'d \<Rightarrow> kube_Result"
  HasReadinessProbes :: "'d \<Rightarrow> kube_Result"
  HasCPUResourceRequirements :: "'d \<Rightarrow> kube_Result"
  HasMemoryResourceRequirements :: "'d \<Rightarrow> kube_Result"

definition Run0_deployment :: "'d kube_checks \<Rightarrow> 'd \<Rightarrow> string list \<Rightarrow> string list" where
  "Run0_deployment kube deployment msg =
     (let hasLivenessProbe = HasLivenessProbes kube deployment;
          msg = (if \<not> Success hasLivenessProbe then msg @ Reasons hasLivenessProbe else msg);
          hasReadinessProbe = HasReadinessProbes kube deployment;
          msg = (if \<not> Success hasReadinessProbe then msg @ Reasons hasReadinessProbe else msg);
          hasCPUresource = HasCPUResourceRequirements kube deployment;
          msg = (if \<not> Success hasCPUresource then msg @ Reasons hasCPUresource else msg);
          hasMemory = HasMemoryResourceRequirements kube deployment;
          msg = (if \<not> Success hasMemory then msg @ Reasons hasMemory else msg)
      in msg)"

fun Run0_lint_loop :: "'d kube_checks \<Rightarrow> 'd list \<Rightarrow> string list \<Rightarrow> string list" where
  "Run0_lint_loop kube [] msg = msg"
| "Run0_lint_loop kube (deploymentSpec # rest) msg =
     Run0_lint_loop kube rest (Run0_deployment kube deploymentSpec msg)"

definition Run0_lint :: "'d kube_checks \<Rightarrow> 'd Spec \<Rightarrow> Result outcome" where
  "Run0_lint kube spec =
     (let msg = Run0_lint_loop kube (DeploymentSpecs spec) []
      in if length msg > 0 then Ret (ResultFailure msg) else Ret ResultSuccess)"

definition Run0_unmarshal ::
  "'d kube_checks \<Rightarrow> ('c \<Rightarrow> 'd Spec \<times> err option) \<Rightarrow> 'c option \<Rightarrow> Result outcome" where
  "Run0_unmarshal kube Unmarshal csv =
     (case csv of
        None \<Rightarrow> Panic ''runtime error: invalid memory address or nil pointer dereference''
      | Some c \<Rightarrow>
          (case Unmarshal c of
             (spec, Some e) \<Rightarrow> (let dropped = ResultError e in Run0_lint kube spec)
           | (spec, None) \<Rightarrow> Run0_lint kube spec))"

definition Run0_csv ::
  "'d kube_checks \<Rightarrow> ('b option \<Rightarrow> ('c option \<times> err option) outcome)
     \<Rightarrow> ('c \<Rightarrow> 'd Spec \<times> err option) \<Rightarrow> 'b option \<Rightarrow> Result outcome" where
  "Run0_csv kube CSV Unmarshal bundle =
     (case CSV bundle of
        Panic msg \<Rightarrow> Panic msg
      | Ret (csv, Some e) \<Rightarrow> (let dropped = ResultError e in Run0_unmarshal kube Unmarshal csv)
      | Ret (csv, None) \<Rightarrow> Run0_unmarshal kube Unmarshal csv)"

definition CSVDeployment_Run0 ::
  "'d kube_checks \<Rightarrow> ('b option \<Rightarrow> ('c option \<times> err option) outcome)
     \<Rightarrow> ('c option \<Rightarrow> (string \<times> err option) outcome) \<Rightarrow> (string \<Rightarrow> string \<Rightarrow> int)
     \<Rightarrow> ('c \<Rightarrow> 'd Spec \<times> err option) \<Rightarrow> ('m, 'b) MetaBundle \<Rightarrow> Result outcome" where
  "CSVDeployment_Run0 kube CSV GetVersion Compare Unmarshal mb =
     (case getLatestBundle CSV GetVersion Compare (Bundles mb) of
        Panic msg \<Rightarrow> Panic msg
      | Ret (Inl e) \<Rightarrow>
          (let dropped = ResultFailure [''Error while checking bundles'']
           in Run0_csv kube CSV Unmarshal None)
      | Ret (Inr bundle) \<Rightarrow> Run0_csv kube CSV Unmarshal bundle)"

section \<open>Sample collaborators\<close>

text \<open>
  Concrete collaborators on which the functions above can be run. A bundle and its
  cluster service version are both represented by the version string of the bundle;
  the bundle \<open>broken\<close> has no cluster service version; the methods panic on a nil
  receiver, as those of the operator-registry library do.
\<close>

definition CSV_of_name :: "string option \<Rightarrow> (string option \<times> err option) outcome" where
  "CSV_of_name bundle =
     (case bundle of
        None \<Rightarrow> Panic ''runtime error: invalid memory address or nil pointer dereference''
      | Some n \<Rightarrow> if n = ''broken'' then Ret (None, Some (ErrExternal ''no csv'')) else Ret (Some n, None))"

definition GetVersion_of_name :: "string option \<Rightarrow> (string \<times> err option) outcome" where
  "GetVersion_of_name csv =
     (case csv of
        None \<Rightarrow> Panic ''runtime error: invalid memory address or nil pointer dereference''
      | Some v \<Rightarrow> Ret (v, None))"

text \<open>
  A comparator for versions of the form \<open>vMAJOR.MINOR.PATCH\<close> with decimal numbers: it
  orders them by the three numbers, as \<open>semver.Compare\<close> orders such versions. It stands
  for \<open>semver.Compare\<close> on such versions only: on a version with a pre-release, a build
  or a missing number the library orders differently.
\<close>

definition decimal :: "string \<Rightarrow> nat" where
  "decimal s = fold (\<lambda>c n. 10 * n + (of_char c - 48)) s 0"

definition core_numbers :: "string \<Rightarrow> nat list" where
  "core_numbers v = map decimal (Split (tl v) CHR ''.'')"

definition Compare_core :: "string \<Rightarrow> string \<Rightarrow> int" where
  "Compare_core v w =
     (if core_numbers v < core_numbers w then - 1
      else if core_numbers w < core_numbers v then 1 else 0)"

section \<open>Properties of the rule-filter DSL\<close>

lemma sliceToSet_loop_lookup:
  "sliceToSet_loop items m x = (if x \<in> set items then Some () else m x)"
  by (induction items arbitrary: m) auto

lemma sliceToSet_lookup: "sliceToSet items x = (if x \<in> set items then Some () else None)"
  by (simp add: sliceToSet_def sliceToSet_loop_lookup)

lemma includes_loop_subset:
  "includes_loop (sliceToSet items) present = (set present \<subseteq> set items)"
  by (induction present) (auto simp: sliceToSet_lookup)

lemma includes_go_subset: "includes_go items present = (set present \<subseteq> set items)"
  by (simp add: includes_go_def includes_loop_subset)

lemma equal_loop_all:
  "equal_loop copyA copyB idxs = list_all (\<lambda>i. copyA ! i = copyB ! i) idxs"
  by (induction idxs) auto

lemma equal_go_mset: "equal_go a b = (mset a = mset b)"
proof (cases "length a = length b")
  case False
  then have "mset a \<noteq> mset b" using mset_eq_length by blast
  with False show ?thesis by (simp add: equal_go_def)
next
  case True
  then have len: "length (sort a) = length (sort b)" by simp
  have "equal_go a b = (\<forall>i<length (sort a). sort a ! i = sort b ! i)"
    using True by (auto simp: equal_go_def equal_loop_all list_all_iff Let_def)
  also have "\<dots> = (sort a = sort b)"
    using len by (auto simp: list_eq_iff_nth_eq)
  also have "\<dots> = (mset a = mset b)"
    by (metis mset_sort properties_for_sort sorted_sort)
  finally show ?thesis .
qed

lemmas operator_defs =
  InOperator_def NotInOperator_def EqualsOperator_def NotEqualOperator_def
  ExistsOperator_def DoesNotExistOperator_def AnyOperator_def

lemmas permissionType_defs =
  AllPermissionType_def NameSpacedPermissionType_def ClusterPermissionType_def

text \<open>
  Claim C1. With the operator \<open>IN\<close>, \<open>eval\<close> holds exactly when every element of \<open>Args\<close>
  occurs in \<open>ruleArgs\<close> (the rule's values are a superset of the arguments; a common
  element is not enough), and each of the five attribute filters keeps the rule exactly
  then. \<open>IN\<close> over \<open>a, b, c\<close> with arguments \<open>a, b\<close> holds; \<open>IN\<close> over \<open>a\<close> with
  arguments \<open>a, b\<close> does not.
\<close>

theorem eval_IN_superset:
  "eval ruleArgs \<lparr>Args = args, OperatorName = InOperator\<rparr> = Ret (set args \<subseteq> set ruleArgs)
   \<and> Filter_apply (APIGroupFilter \<lparr>Args = args, OperatorName = InOperator\<rparr>) rule
       = Ret (if set args \<subseteq> set (APIGroups rule) then Some rule else None)
   \<and> Filter_apply (ResourcesFilter \<lparr>Args = args, OperatorName = InOperator\<rparr>) rule
       = Ret (if set args \<subseteq> set (Resources rule) then Some rule else None)
   \<and> Filter_apply (ResourceNamesFilter \<lparr>Args = args, OperatorName = InOperator\<rparr>) rule
       = Ret (if set args \<subseteq> set (ResourceNames rule) then Some rule else None)
   \<and> Filter_apply (VerbsFilter \<lparr>Args = args, OperatorName = InOperator\<rparr>) rule
       = Ret (if set args \<subseteq> set (Verbs rule) then Some rule else None)
   \<and> Filter_apply (NonResourceURLsFilter \<lparr>Args = args, OperatorName = InOperator\<rparr>) rule
       = Ret (if set args \<subseteq> set (NonResourceURLs rule) then Some rule else None)
   \<and> eval [''a'', ''b'', ''c''] \<lparr>Args = [''a'', ''b''], OperatorName = InOperator\<rparr> = Ret True
   \<and> eval [''a''] \<lparr>Args = [''a'', ''b''], OperatorName = InOperator\<rparr> = Ret False"
  by (simp add: eval_def includes_go_subset Filter_apply_def)

text \<open>
  Claim C6, as stated: \<open>EQUAL\<close> compares the two sequences as sets, whatever the
  duplicates. It fails on the code: \<open>a, a, b\<close> and \<open>a, b, b\<close> have the same length and
  the same set of elements, and \<open>EQUAL\<close> rejects them.
\<close>

theorem eval_EQUAL_not_set_equality:
  "set [''a'', ''a'', ''b''] = set [''a'', ''b'', ''b'']
   \<and> length [''a'', ''a'', ''b''] = length [''a'', ''b'', ''b'']
   \<and> eval [''a'', ''a'', ''b''] \<lparr>Args = [''a'', ''b'', ''b''], OperatorName = EqualsOperator\<rparr>
       = Ret False"
  by (simp add: eval_def equal_go_mset operator_defs)

text \<open>
  Claim C6, amended. \<open>EQUAL\<close> holds exactly when the two sequences have the same length
  and the same elements with the same multiplicities (equality as multisets: the order
  does not matter, the duplicates do); \<open>NOT_EQUAL\<close> is its negation; \<open>EQUAL\<close> over
  \<open>a, b\<close> and \<open>b, a\<close> holds.
\<close>

theorem eval_EQUAL_multiset:
  "eval ruleArgs \<lparr>Args = args, OperatorName = EqualsOperator\<rparr>
     = Ret (length ruleArgs = length args \<and> mset ruleArgs = mset args)
   \<and> eval ruleArgs \<lparr>Args = args, OperatorName = NotEqualOperator\<rparr>
     = Ret (\<not> (length ruleArgs = length args \<and> mset ruleArgs = mset args))
   \<and> eval [''a'', ''b''] \<lparr>Args = [''b'', ''a''], OperatorName = EqualsOperator\<rparr> = Ret True
   \<and> eval [''a'', ''b''] \<lparr>Args = [''b'', ''a''], OperatorName = NotEqualOperator\<rparr> = Ret False"
proof -
  have len: "mset a = mset b \<Longrightarrow> length a = length b" for a b :: "string list"
    using mset_eq_length by blast
  have eq: "equal_go a b = (length a = length b \<and> mset a = mset b)" for a b
    using len [of a b] by (auto simp: equal_go_mset)
  show ?thesis
    by (simp add: eval_def eq operator_defs)
qed

text \<open>
  Claim C8, as stated: the operator is validated when the rule filter is built, so that
  evaluation never panics. It fails on the code: a rule filter holding the operator
  \<open>FOO\<close> is an ordinary value, and filtering one rule with it panics inside \<open>eval\<close>.
\<close>

theorem eval_panics_on_unknown_operator:
  "eval [''get''] \<lparr>Args = [], OperatorName = ''FOO''\<rparr> = Panic ''eval: Unsupported operator FOO''
   \<and> FilterRules
        \<lparr>ClusterPermissions = [],
         Permissions = [\<lparr>ServiceAccountName = ''sa'',
           Rules = [\<lparr>policyRule = \<lparr>Verbs = [''get''], APIGroups = [], Resources = [],
             ResourceNames = [], NonResourceURLs = []\<rparr>, name = ''r''\<rparr>]\<rparr>]\<rparr>
        \<lparr>PermissionType = AllPermissionType,
         Filters = [VerbsFilter \<lparr>Args = [], OperatorName = ''FOO''\<rparr>]\<rparr>
       = Panic ''eval: Unsupported operator FOO''"
  by (simp add: eval_def operator_defs FilterRules_def GetRelevantPermissions_def
      RuleFilter_Run_def Filter_apply_def)

text \<open>
  Claim C8, amended. The enumeration is closed and checked when a filter is evaluated:
  \<open>eval\<close> returns a truth value exactly for the seven operators and panics (a fatal
  violation, no error value) for every other operator name; the earlier revision of
  \<open>eval\<close> does the same for a filter object that is not nil.
\<close>

theorem eval_returns_iff_known_operator:
  "(\<exists>b. eval ruleArgs params = Ret b)
     = (OperatorName params \<in> {InOperator, NotInOperator, EqualsOperator, NotEqualOperator,
          ExistsOperator, DoesNotExistOperator, AnyOperator})
   \<and> (eval ruleArgs params = Panic (''eval: Unsupported operator '' @ OperatorName params))
     = (OperatorName params \<notin> {InOperator, NotInOperator, EqualsOperator, NotEqualOperator,
          ExistsOperator, DoesNotExistOperator, AnyOperator})
   \<and> (\<exists>b. eval_FilterObj ruleArgs (Some params) = Ret b)
     = (OperatorName params \<in> {InOperator, NotInOperator, EqualsOperator, NotEqualOperator,
          ExistsOperator, DoesNotExistOperator, AnyOperator})
   \<and> (eval_FilterObj ruleArgs (Some params)
         = Panic (''eval: Unsupported operator '' @ OperatorName params))
     = (OperatorName params \<notin> {InOperator, NotInOperator, EqualsOperator, NotEqualOperator,
          ExistsOperator, DoesNotExistOperator, AnyOperator})"
  by (simp add: eval_def eval_FilterObj_def)

text \<open>
  Claim C10. A rule filter whose permission type is none of \<open>all\<close>, \<open>namespaced\<close> and
  \<open>clusterScoped\<close> has no relevant permission, and \<open>FilterRules\<close> returns no rule for
  it: it returns normally, with neither an error nor a panic, whatever the filters are.
\<close>

theorem FilterRules_unknown_PermissionType:
  assumes "PermissionType r \<notin> {AllPermissionType, NameSpacedPermissionType, ClusterPermissionType}"
  shows "GetRelevantPermissions r cp = [] \<and> FilterRules cp r = Ret []"
  using assms by (simp add: GetRelevantPermissions_def FilterRules_def)

theorem FilterRules_unknown_PermissionType_witness:
  "''bogus'' \<notin> {AllPermissionType, NameSpacedPermissionType, ClusterPermissionType}
   \<and> GetRelevantPermissions
        \<lparr>PermissionType = ''bogus'', Filters = [VerbsFilter \<lparr>Args = [], OperatorName = ''FOO''\<rparr>]\<rparr>
        \<lparr>ClusterPermissions = [\<lparr>ServiceAccountName = ''sa'',
           Rules = [\<lparr>policyRule = \<lparr>Verbs = [''get''], APIGroups = [], Resources = [],
             ResourceNames = [], NonResourceURLs = []\<rparr>, name = ''r''\<rparr>]\<rparr>],
         Permissions = []\<rparr> = []
   \<and> FilterRules
        \<lparr>ClusterPermissions = [\<lparr>ServiceAccountName = ''sa'',
           Rules = [\<lparr>policyRule = \<lparr>Verbs = [''get''], APIGroups = [], Resources = [],
             ResourceNames = [], NonResourceURLs = []\<rparr>, name = ''r''\<rparr>]\<rparr>],
         Permissions = []\<rparr>
        \<lparr>PermissionType = ''bogus'', Filters = [VerbsFilter \<lparr>Args = [], OperatorName = ''FOO''\<rparr>]\<rparr>
       = Ret []"
proof -
  have h: "PermissionType
      \<lparr>PermissionType = ''bogus'', Filters = [VerbsFilter \<lparr>Args = [], OperatorName = ''FOO''\<rparr>]\<rparr>
    \<notin> {AllPermissionType, NameSpacedPermissionType, ClusterPermissionType}"
    by (simp add: permissionType_defs)
  show ?thesis
    using FilterRules_unknown_PermissionType [OF h] h by simp
qed

section \<open>Properties of the extractor\<close>


lemma unit_step_ok:
  "Extract (imgs ! i) = Inr b \<Longrightarrow> unit_step Extract imgs i st = st\<lparr>res := (res st)[i := Some b]\<rparr>"
  by (simp add: unit_step_def)

lemma fold_unit_step_err:
  "group_err (fold (unit_step Extract imgs) order st) =
     (case group_err st of
        Some e \<Rightarrow> Some e
      | None \<Rightarrow> (case find (\<lambda>i. isl (Extract (imgs ! i))) order of
                   None \<Rightarrow> None
                 | Some k \<Rightarrow> Some (projl (Extract (imgs ! k)))))"
  by (induction order arbitrary: st) (auto simp: unit_step_def split: sum.splits option.splits)

lemma fold_unit_step_length:
  "length (res (fold (unit_step Extract imgs) order st)) = length (res st)"
  by (induction order arbitrary: st) (auto simp: unit_step_def split: sum.splits option.splits)

lemma perm_set: "mset order = mset [0..<n] \<Longrightarrow> set order = {0..<n}"
  by (metis mset_eq_setD set_upt)

text \<open>
  Claim C2. Whatever the order in which the fetches finish, if fetching some reference
  fails then \<open>extractBundlesConcurrent\<close> returns the error of the first unit to fail
  (\<open>find\<close> picks it in the order of completion) and the nil bundle list, never a list
  of the bundles that were fetched; \<open>ExtractBundles\<close> and \<open>ExtractAllBundles\<close>, once
  they have the references, return the same.
\<close>

theorem extractBundlesConcurrent_first_error:
  assumes perm: "mset order = mset [0..<length bundleImages]"
      and i: "i < length bundleImages" and fail: "Extract (bundleImages ! i) = Inl failure"
  shows "\<exists>k e. find (\<lambda>j. isl (Extract (bundleImages ! j))) order = Some k
           \<and> Extract (bundleImages ! k) = Inl e
           \<and> extractBundlesConcurrent Extract bundleImages order = Inl e
           \<and> (validateIndexImage Parse indexImage = None \<and> pkgName \<noteq> []
                \<and> ExtractBundleImages indexImage pkgName = Inr bundleImages
              \<longrightarrow> ExtractBundles Parse ExtractBundleImages Extract order indexImage pkgName = Inl e)
           \<and> (validateIndexImage Parse indexImage = None
                \<and> ExtractAllBundleImages indexImage = Inr bundleImages
              \<longrightarrow> ExtractAllBundles Parse ExtractAllBundleImages Extract order indexImage = Inl e)"
proof -
  have so: "set order = {0..<length bundleImages}" using perm by (rule perm_set)
  then have "i \<in> set order" using i by simp
  then have "find (\<lambda>j. isl (Extract (bundleImages ! j))) order \<noteq> None"
    using fail by (auto simp: find_None_iff)
  then obtain k where k: "find (\<lambda>j. isl (Extract (bundleImages ! j))) order = Some k" by auto
  then have "isl (Extract (bundleImages ! k))" by (auto simp: find_Some_iff)
  then obtain e where e: "Extract (bundleImages ! k) = Inl e" by (cases "Extract (bundleImages ! k)") auto
  have r: "extractBundlesConcurrent Extract bundleImages order = Inl e"
    using k e by (simp add: extractBundlesConcurrent_def Let_def fold_unit_step_err)
  have "validateIndexImage Parse indexImage = None \<and> pkgName \<noteq> []
                \<and> ExtractBundleImages indexImage pkgName = Inr bundleImages
              \<longrightarrow> ExtractBundles Parse ExtractBundleImages Extract order indexImage pkgName = Inl e"
    using r by (simp add: ExtractBundles_def)
  moreover have "validateIndexImage Parse indexImage = None
                \<and> ExtractAllBundleImages indexImage = Inr bundleImages
              \<longrightarrow> ExtractAllBundles Parse ExtractAllBundleImages Extract order indexImage = Inl e"
    using r by (simp add: ExtractAllBundles_def)
  ultimately show ?thesis using k e r by blast
qed

theorem extractBundlesConcurrent_first_error_witness:
  "mset [2, 0, 1] = mset [0..<length [''x'', ''y'', ''z'']]
   \<and> (\<lambda>s. if s = ''y'' then Inl (ErrExternal ''y failed'') else Inr (''bundle of '' @ s)) ([''x'', ''y'', ''z''] ! 1)
        = Inl (ErrExternal ''y failed'')
   \<and> extractBundlesConcurrent
        (\<lambda>s. if s = ''y'' then Inl (ErrExternal ''y failed'') else Inr (''bundle of '' @ s))
        [''x'', ''y'', ''z''] [2, 0, 1] = Inl (ErrExternal ''y failed'')
   \<and> ExtractBundles (\<lambda>ref. None) (\<lambda>image pkg. Inr [''x'', ''y'', ''z''])
        (\<lambda>s. if s = ''y'' then Inl (ErrExternal ''y failed'') else Inr (''bundle of '' @ s))
        [2, 0, 1] ''quay.io/osd-addons/addon-index:v1'' ''addon'' = Inl (ErrExternal ''y failed'')"
proof -
  let ?E = "\<lambda>s. if s = ''y'' then Inl (ErrExternal ''y failed'') else Inr (''bundle of '' @ s) :: err + string"
  let ?imgs = "[''x'', ''y'', ''z'']"
  have perm: "mset [2, 0, 1] = mset [0..<length ?imgs]"
    by (simp add: upt_rec)
  have i: "(1::nat) < length ?imgs" by simp
  have fail: "?E (?imgs ! 1) = Inl (ErrExternal ''y failed'')" by simp
  have v: "validateIndexImage (\<lambda>ref. None) ''quay.io/osd-addons/addon-index:v1'' = None"
    by (simp add: validateIndexImage_def isTaglessImage_def)
  from extractBundlesConcurrent_first_error [where Extract = ?E and bundleImages = ?imgs and order = "[2, 0, 1]" and i = 1
      and failure = "ErrExternal ''y failed''" and Parse = "\<lambda>ref. None"
      and indexImage = "''quay.io/osd-addons/addon-index:v1''" and pkgName = "''addon''"
      and ExtractBundleImages = "\<lambda>image pkg. Inr [''x'', ''y'', ''z'']", OF perm i fail]
  obtain k e where
    k: "find (\<lambda>j. isl (?E (?imgs ! j))) [2, 0, 1] = Some k" and e: "?E (?imgs ! k) = Inl e"
    and r: "extractBundlesConcurrent ?E ?imgs [2, 0, 1] = Inl e"
    and eb: "validateIndexImage (\<lambda>ref. None) ''quay.io/osd-addons/addon-index:v1'' = None \<and> ''addon'' \<noteq> []
                \<and> (\<lambda>image pkg. Inr [''x'', ''y'', ''z'']) ''quay.io/osd-addons/addon-index:v1'' ''addon'' = Inr ?imgs
           \<longrightarrow> ExtractBundles (\<lambda>ref. None) (\<lambda>image pkg. Inr [''x'', ''y'', ''z'']) ?E [2, 0, 1]
                ''quay.io/osd-addons/addon-index:v1'' ''addon'' = Inl e"
    by blast
  from k have "k = 1" by simp
  with e have "e = ErrExternal ''y failed''" by simp
  with r eb v perm fail show ?thesis by simp
qed


lemma fold_unit_step_res:
  assumes "\<forall>i \<in> set order. Extract (imgs ! i) = Inr (b i)" "j < length (res st)"
  shows "res (fold (unit_step Extract imgs) order st) ! j
           = (if j \<in> set order then Some (b j) else res st ! j)"
  using assms
proof (induction order arbitrary: st rule: rev_induct)
  case Nil
  then show ?case by simp
next
  case (snoc i order)
  have step: "Extract (imgs ! i) = Inr (b i)" using snoc.prems(1) by simp
  have rest: "\<forall>k \<in> set order. Extract (imgs ! k) = Inr (b k)" using snoc.prems(1) by simp
  have IH: "res (fold (unit_step Extract imgs) order st) ! j
              = (if j \<in> set order then Some (b j) else res st ! j)"
    using snoc.IH [OF rest snoc.prems(2)] .
  have len: "j < length (res (fold (unit_step Extract imgs) order st))"
    using snoc.prems(2) by (simp add: fold_unit_step_length)
  show ?case
  proof (cases "i = j")
    case True
    then show ?thesis using len step by (simp add: unit_step_ok)
  next
    case False
    then show ?thesis using IH step by (auto simp: unit_step_ok)
  qed
qed

text \<open>
  Claim C5. When every fetch succeeds, \<open>extractBundlesConcurrent\<close> returns, whatever
  the order in which the fetches finish, the list whose slot \<open>i\<close> holds the bundle
  fetched from the reference of index \<open>i\<close>.
\<close>

theorem extractBundlesConcurrent_index_aligned:
  assumes perm: "mset order = mset [0..<length bundleImages]"
      and ok: "map Extract bundleImages = map Inr bundles"
  shows "extractBundlesConcurrent Extract bundleImages order = Inr (map Some bundles)
         \<and> length (map Some bundles) = length bundleImages
         \<and> (\<forall>i<length bundleImages. Extract (bundleImages ! i) = Inr (bundles ! i)
               \<and> map Some bundles ! i = Some (bundles ! i))"
proof -
  let ?n = "length bundleImages"
  have len: "length bundles = ?n" using ok by (metis length_map)
  have okI: "Extract (bundleImages ! i) = Inr (bundles ! i)" if "i < ?n" for i
    using that ok len by (metis nth_map)
  have so: "set order = {0..<?n}" using perm by (rule perm_set)
  let ?init = "\<lparr>res = replicate ?n None, group_err = None\<rparr> :: 'a group_state"
  let ?st = "fold (unit_step Extract bundleImages) order ?init"
  have "find (\<lambda>i. isl (Extract (bundleImages ! i))) order = None"
    using so okI by (auto simp: find_None_iff)
  then have noerr: "group_err ?st = None"
    by (simp add: fold_unit_step_err)
  have all: "\<forall>i \<in> set order. Extract (bundleImages ! i) = Inr (bundles ! i)"
    using so okI by simp
  have "res ?st = map Some bundles"
  proof (rule nth_equalityI)
    show "length (res ?st) = length (map Some bundles)"
      by (simp add: fold_unit_step_length len)
  next
    fix j assume "j < length (res ?st)"
    then have j: "j < ?n" by (simp add: fold_unit_step_length)
    then have "j < length (res ?init)" by simp
    from fold_unit_step_res [OF all this] have "res ?st ! j = Some (bundles ! j)"
      using so j by simp
    then show "res ?st ! j = map Some bundles ! j" using j len by simp
  qed
  with noerr have "extractBundlesConcurrent Extract bundleImages order = Inr (map Some bundles)"
    by (simp add: extractBundlesConcurrent_def Let_def)
  then show ?thesis using len okI by simp
qed

theorem extractBundlesConcurrent_index_aligned_witness:
  "mset [2, 0, 1] = mset [0..<length [''x'', ''y'', ''z'']]
   \<and> map (\<lambda>s. Inr (''bundle of '' @ s)) [''x'', ''y'', ''z'']
       = map Inr [''bundle of x'', ''bundle of y'', ''bundle of z'']
   \<and> extractBundlesConcurrent (\<lambda>s. Inr (''bundle of '' @ s)) [''x'', ''y'', ''z''] [2, 0, 1]
       = Inr [Some ''bundle of x'', Some ''bundle of y'', Some ''bundle of z'']"
proof -
  have perm: "mset [2, 0, 1] = mset [0..<length [''x'', ''y'', ''z'']]"
    by (simp add: upt_rec)
  have ok: "map (\<lambda>s. Inr (''bundle of '' @ s) :: err + string) [''x'', ''y'', ''z'']
       = map Inr [''bundle of x'', ''bundle of y'', ''bundle of z'']"
    by simp
  from extractBundlesConcurrent_index_aligned [OF perm ok] perm ok show ?thesis by simp
qed

lemma isTaglessImage_iff:
  "isTaglessImage indexImage = (if CHR '':'' \<in> set indexImage then None else Some ErrTaglessImage)"
  by (simp add: isTaglessImage_def)

lemma ExtractBundles_validation_gate:
  "ExtractBundles Parse ExtractBundleImages Extract order [] pkgName
     = Inl (ErrNew ''invalid empty indexImage'')"
  "indexImage \<noteq> [] \<Longrightarrow> CHR '':'' \<notin> set indexImage
     \<Longrightarrow> ExtractBundles Parse ExtractBundleImages Extract order indexImage pkgName = Inr []"
  "indexImage \<noteq> [] \<Longrightarrow> CHR '':'' \<in> set indexImage \<Longrightarrow> Parse indexImage = Some e
     \<Longrightarrow> \<not> errors_Is e ErrTaglessImage
     \<Longrightarrow> ExtractBundles Parse ExtractBundleImages Extract order indexImage pkgName
       = Inl (Errorf ''can't parse indexImage '%s', got %w'' [indexImage] e)"
  by (simp_all add: ExtractBundles_def validateIndexImage_def isTaglessImage_iff)

lemma ExtractAllBundles_validation_gate:
  "ExtractAllBundles Parse ExtractAllBundleImages Extract order []
     = Inl (ErrNew ''invalid empty indexImage'')"
  "indexImage \<noteq> [] \<Longrightarrow> CHR '':'' \<notin> set indexImage
     \<Longrightarrow> ExtractAllBundles Parse ExtractAllBundleImages Extract order indexImage = Inr []"
  "indexImage \<noteq> [] \<Longrightarrow> CHR '':'' \<in> set indexImage \<Longrightarrow> Parse indexImage = Some e
     \<Longrightarrow> \<not> errors_Is e ErrTaglessImage
     \<Longrightarrow> ExtractAllBundles Parse ExtractAllBundleImages Extract order indexImage
       = Inl (Errorf ''can't parse indexImage '%s', got %w'' [indexImage] e)"
  by (simp_all add: ExtractAllBundles_def validateIndexImage_def isTaglessImage_iff)

text \<open>
  Claim C4, on the code. The empty reference is an error and \<open>registry.example/addon\<close>
  is skipped with the empty list, as claimed. The reference \<open>localhost:5000/addon\<close>
  has no tag either, its only colon being the one of the registry port; \<open>isTaglessImage\<close>
  finds that colon and does not skip it: the extraction goes on and returns what the
  index and bundle extractors give, an error or a bundle list.
\<close>

theorem ExtractBundles_tagless_with_registry_port:
  "isTaglessImage ''localhost:5000/addon'' = None
   \<and> ExtractBundles (\<lambda>ref. None) (\<lambda>image pkg. Inl (ErrExternal ''index unreachable'')) Extract order
        ''localhost:5000/addon'' ''addon'' = Inl (ErrExternal ''index unreachable'')
   \<and> ExtractBundles (\<lambda>ref. None) (\<lambda>image pkg. Inr [''b'']) (\<lambda>ref. Inr bundle) [0]
        ''localhost:5000/addon'' ''addon'' = Inr [Some bundle]
   \<and> ExtractAllBundles (\<lambda>ref. None) (\<lambda>image. Inl (ErrExternal ''index unreachable'')) Extract order
        ''localhost:5000/addon'' = Inl (ErrExternal ''index unreachable'')
   \<and> ExtractBundles Parse ExtractBundleImages Extract order ''registry.example/addon'' pkgName = Inr []
   \<and> ExtractBundles Parse ExtractBundleImages Extract order [] pkgName
        = Inl (ErrNew ''invalid empty indexImage'')"
  by (simp add: ExtractBundles_def ExtractAllBundles_def validateIndexImage_def isTaglessImage_iff
      extractBundlesConcurrent_def unit_step_def)

section \<open>Properties of the validator filter\<close>

text \<open>
  Claim C3. Provided the lists that are given parse, \<open>generateFilter\<close> returns no
  filter when the three lists are empty; otherwise the code filter is \<open>FilterCodes\<close> of
  the enabled codes when the enabled list is given (whatever the disabled list is), else
  \<open>Not (FilterCodes \<dots>)\<close> of the disabled codes when the disabled list is given, else
  \<open>NoFilter\<close>; and when the stage list is given the result is \<open>And\<close> of that code
  filter and \<open>FilterStages\<close> of the stages.
\<close>

theorem generateFilter_precedence:
  assumes d: "disabled \<noteq> [] \<longrightarrow> parseCodeList ParseCode disabled = Inr disabledCodes"
      and e: "enabled \<noteq> [] \<longrightarrow> parseCodeList ParseCode enabled = Inr enabledCodes"
      and s: "stages \<noteq> [] \<longrightarrow> parseStageList ParseStage stages = Inr stgs"
  shows "generateFilter ParseCode ParseStage disabled enabled stages =
     (if disabled = [] \<and> enabled = [] \<and> stages = [] then Inr None
      else Inr (Some
        (let codeFilter =
               (if enabled \<noteq> [] then FilterCodes enabledCodes
                else if disabled \<noteq> [] then Not_Filter (FilterCodes disabledCodes)
                else NoFilter)
         in if stages \<noteq> [] then And_Filter codeFilter (FilterStages stgs) else codeFilter)))"
  using d e s by (simp add: generateFilter_def)

theorem generateFilter_precedence_witness:
  "parseCodeList (\<lambda>s. if s = [] then Inl (ErrExternal ''invalid code'') else Inr s) ''AM0001,AM0002''
     = Inr [''AM0001'', ''AM0002'']
   \<and> parseCodeList (\<lambda>s. if s = [] then Inl (ErrExternal ''invalid code'') else Inr s) ''AM0003''
     = Inr [''AM0003'']
   \<and> parseStageList (\<lambda>s. if s = [] then Inl (ErrExternal ''invalid stage'') else Inr s) ''pre''
     = Inr [''pre'']
   \<and> generateFilter (\<lambda>s. if s = [] then Inl (ErrExternal ''invalid code'') else Inr s)
        (\<lambda>s. if s = [] then Inl (ErrExternal ''invalid stage'') else Inr s)
        ''AM0001,AM0002'' ''AM0003'' ''pre''
     = Inr (Some (And_Filter (FilterCodes [''AM0003'']) (FilterStages [''pre''])))
   \<and> generateFilter (\<lambda>s. if s = [] then Inl (ErrExternal ''invalid code'') else Inr s)
        (\<lambda>s. if s = [] then Inl (ErrExternal ''invalid stage'') else Inr s)
        ''AM0001,AM0002'' [] []
     = Inr (Some (Not_Filter (FilterCodes [''AM0001'', ''AM0002''])))"
proof -
  let ?pc = "\<lambda>s. if s = [] then Inl (ErrExternal ''invalid code'') else Inr s :: err + string"
  let ?ps = "\<lambda>s. if s = [] then Inl (ErrExternal ''invalid stage'') else Inr s :: err + string"
  have d: "parseCodeList ?pc ''AM0001,AM0002'' = Inr [''AM0001'', ''AM0002'']"
    by (simp add: parseCodeList_def)
  have e: "parseCodeList ?pc ''AM0003'' = Inr [''AM0003'']"
    by (simp add: parseCodeList_def)
  have s: "parseStageList ?ps ''pre'' = Inr [''pre'']"
    by (simp add: parseStageList_def)
  have a: "generateFilter ?pc ?ps ''AM0001,AM0002'' ''AM0003'' ''pre''
     = Inr (Some (And_Filter (FilterCodes [''AM0003'']) (FilterStages [''pre''])))"
    using generateFilter_precedence [where ParseCode = ?pc and ParseStage = ?ps and disabled = "''AM0001,AM0002''"
        and enabled = "''AM0003''" and stages = "''pre''" and disabledCodes = "[''AM0001'', ''AM0002'']"
        and enabledCodes = "[''AM0003'']" and stgs = "[''pre'']"] d e s
    by simp
  have b: "generateFilter ?pc ?ps ''AM0001,AM0002'' [] []
     = Inr (Some (Not_Filter (FilterCodes [''AM0001'', ''AM0002''])))"
    using generateFilter_precedence [where ParseCode = ?pc and ParseStage = ?ps and disabled = "''AM0001,AM0002''"
        and enabled = "[]" and stages = "[]" and disabledCodes = "[''AM0001'', ''AM0002'']"
        and enabledCodes = "[]" and stgs = "[]"] d
    by simp
  from d e s a b show ?thesis by simp
qed

section \<open>Properties of the validator \<open>csv_deployments\<close>\<close>

lemma drop_ConsD: "drop n xs = b # r \<Longrightarrow> n < length xs \<and> xs ! n = b \<and> drop (Suc n) xs = r"
proof -
  assume a: "drop n xs = b # r"
  then have n: "n < length xs" by (cases "n < length xs") auto
  from Cons_nth_drop_Suc [OF n] a show ?thesis using n by simp
qed

lemma getLatestBundle_loop_max:
  assumes vers: "map (getVersion CSV GV) bundles = map (\<lambda>v. Ret (Inr v)) vs"
      and total: "\<forall>i<length vs. \<forall>j<length vs. i \<noteq> j \<longrightarrow> Compare (vs ! i) (vs ! j) = 1 \<or> Compare (vs ! j) (vs ! i) = 1"
      and trans: "\<forall>i<length vs. \<forall>j<length vs. \<forall>l<length vs.
                    Compare (vs ! i) (vs ! j) = 1 \<and> Compare (vs ! j) (vs ! l) = 1 \<longrightarrow> Compare (vs ! i) (vs ! l) = 1"
  shows "rest = drop n bundles \<Longrightarrow> k < n \<Longrightarrow> n \<le> length bundles
         \<Longrightarrow> \<forall>j<n. j \<noteq> k \<longrightarrow> Compare (vs ! k) (vs ! j) = 1
         \<Longrightarrow> \<exists>m<length bundles. getLatestBundle_loop CSV GV Compare (bundles ! k) rest = Ret (Inr (bundles ! m))
               \<and> (\<forall>j<length bundles. j \<noteq> m \<longrightarrow> Compare (vs ! m) (vs ! j) = 1)"
proof (induction rest arbitrary: n k)
  case Nil
  then have "n = length bundles" by simp
  with Nil show ?case by auto
next
  case (Cons b r)
  have len: "length vs = length bundles" using vers by (metis length_map)
  have gv: "getVersion CSV GV (bundles ! i) = Ret (Inr (vs ! i))" if "i < length bundles" for i
    using vers that len by (metis (no_types, lifting) nth_map)
  from drop_ConsD [OF Cons.prems(1) [symmetric]]
  have n: "n < length bundles" and b: "bundles ! n = b" and r: "r = drop (Suc n) bundles" by auto
  have k: "k < length bundles" using Cons.prems(2) n by simp
  show ?case
  proof (cases "Compare (vs ! n) (vs ! k) = 1")
    case True
    have beats: "\<forall>j<Suc n. j \<noteq> n \<longrightarrow> Compare (vs ! n) (vs ! j) = 1"
    proof (intro allI impI)
      fix j assume j: "j < Suc n" "j \<noteq> n"
      then have jn: "j < n" by simp
      show "Compare (vs ! n) (vs ! j) = 1"
      proof (cases "j = k")
        case True
        then show ?thesis using \<open>Compare (vs ! n) (vs ! k) = 1\<close> by simp
      next
        case False
        then have "Compare (vs ! k) (vs ! j) = 1" using Cons.prems(4) jn by simp
        with True trans n k jn len show ?thesis
          by (metis (no_types, lifting) less_trans)
      qed
    qed
    from Cons.IH [OF r _ _ beats] n
    obtain m where "m < length bundles"
      "getLatestBundle_loop CSV GV Compare (bundles ! n) r = Ret (Inr (bundles ! m))"
      "\<forall>j<length bundles. j \<noteq> m \<longrightarrow> Compare (vs ! m) (vs ! j) = 1"
      by auto
    then show ?thesis using True gv [OF n] gv [OF k] b by auto
  next
    case False
    have kn: "k \<noteq> n" using Cons.prems(2) by simp
    then have "Compare (vs ! k) (vs ! n) = 1" using total False n k len by metis
    then have beats: "\<forall>j<Suc n. j \<noteq> k \<longrightarrow> Compare (vs ! k) (vs ! j) = 1"
      using Cons.prems(4) by (auto simp: less_Suc_eq)
    from Cons.IH [OF r _ _ beats] n Cons.prems(2)
    obtain m where "m < length bundles"
      "getLatestBundle_loop CSV GV Compare (bundles ! k) r = Ret (Inr (bundles ! m))"
      "\<forall>j<length bundles. j \<noteq> m \<longrightarrow> Compare (vs ! m) (vs ! j) = 1"
      by auto
    then show ?thesis using False gv [OF n] gv [OF k] b by auto
  qed
qed

text \<open>
  Claim C9. On a non-empty bundle list whose bundles all have a version, \<open>vs\<close>, such
  that any two of the versions are strictly ordered by \<open>semver.Compare\<close> one way or the
  other (they are distinct semantic versions) and the order is transitive on them,
  \<open>getLatestBundle\<close> returns a bundle of the list whose version is greater than the
  version of every other bundle: the maximum.
\<close>

theorem getLatestBundle_maximum:
  assumes nonempty: "bundles \<noteq> []"
      and vers: "map (getVersion CSV GV) bundles = map (\<lambda>v. Ret (Inr v)) vs"
      and total: "\<forall>i<length vs. \<forall>j<length vs. i \<noteq> j \<longrightarrow> Compare (vs ! i) (vs ! j) = 1 \<or> Compare (vs ! j) (vs ! i) = 1"
      and trans: "\<forall>i<length vs. \<forall>j<length vs. \<forall>l<length vs.
                    Compare (vs ! i) (vs ! j) = 1 \<and> Compare (vs ! j) (vs ! l) = 1 \<longrightarrow> Compare (vs ! i) (vs ! l) = 1"
  shows "\<exists>m<length bundles. getLatestBundle CSV GV Compare bundles = Ret (Inr (bundles ! m))
               \<and> (\<forall>j<length bundles. j \<noteq> m \<longrightarrow> Compare (vs ! m) (vs ! j) = 1)"
proof (cases "length bundles = 1")
  case True
  then show ?thesis by (auto simp: getLatestBundle_def)
next
  case False
  from nonempty obtain first rest where fr: "bundles = first # rest" by (cases bundles) auto
  have "\<exists>m<length bundles. getLatestBundle_loop CSV GV Compare (bundles ! 0) rest = Ret (Inr (bundles ! m))
               \<and> (\<forall>j<length bundles. j \<noteq> m \<longrightarrow> Compare (vs ! m) (vs ! j) = 1)"
    by (rule getLatestBundle_loop_max [OF vers total trans, where n = 1]) (auto simp: fr)
  then show ?thesis using False by (simp add: getLatestBundle_def fr)
qed

text \<open>The bundles of versions 1.0.0 and 1.2.0: the latest bundle is the one of 1.2.0.\<close>

theorem getLatestBundle_maximum_witness:
  "[Some ''1.0.0'', Some ''1.2.0''] \<noteq> []
   \<and> map (getVersion CSV_of_name GetVersion_of_name) [Some ''1.0.0'', Some ''1.2.0'']
       = map (\<lambda>v. Ret (Inr v)) [''v1.0.0'', ''v1.2.0'']
   \<and> Compare_core ''v1.2.0'' ''v1.0.0'' = 1
   \<and> getLatestBundle CSV_of_name GetVersion_of_name Compare_core [Some ''1.0.0'', Some ''1.2.0'']
       = Ret (Inr (Some ''1.2.0''))"
proof -
  let ?bundles = "[Some ''1.0.0'', Some ''1.2.0'']"
  let ?vs = "[''v1.0.0'', ''v1.2.0'']"
  have cmp: "Compare_core ''v1.2.0'' ''v1.0.0'' = 1" "Compare_core ''v1.0.0'' ''v1.2.0'' = - 1"
    "Compare_core ''v1.0.0'' ''v1.0.0'' = 0" "Compare_core ''v1.2.0'' ''v1.2.0'' = 0"
    by (simp_all add: Compare_core_def core_numbers_def decimal_def)
  have ne: "?bundles \<noteq> []" by simp
  have vers: "map (getVersion CSV_of_name GetVersion_of_name) ?bundles = map (\<lambda>v. Ret (Inr v)) ?vs"
    by (simp add: getVersion_def CSV_of_name_def GetVersion_of_name_def)
  have total: "\<forall>i<length ?vs. \<forall>j<length ?vs. i \<noteq> j \<longrightarrow>
      Compare_core (?vs ! i) (?vs ! j) = 1 \<or> Compare_core (?vs ! j) (?vs ! i) = 1"
    by (simp add: All_less_Suc cmp)
  have trans: "\<forall>i<length ?vs. \<forall>j<length ?vs. \<forall>l<length ?vs.
      Compare_core (?vs ! i) (?vs ! j) = 1 \<and> Compare_core (?vs ! j) (?vs ! l) = 1
        \<longrightarrow> Compare_core (?vs ! i) (?vs ! l) = 1"
    by (simp add: All_less_Suc cmp)
  from getLatestBundle_maximum [OF ne vers total trans]
  obtain m where m: "m < length ?bundles"
    and r: "getLatestBundle CSV_of_name GetVersion_of_name Compare_core ?bundles = Ret (Inr (?bundles ! m))"
    and best: "\<forall>j<length ?bundles. j \<noteq> m \<longrightarrow> Compare_core (?vs ! m) (?vs ! j) = 1"
    by blast
  have "m \<noteq> 0"
  proof
    assume "m = 0"
    with best [rule_format, of 1] have "Compare_core (?vs ! 0) (?vs ! 1) = 1" by simp
    then show False by (simp add: cmp)
  qed
  with m have "m = 1" by simp
  with r ne vers cmp show ?thesis by simp
qed

lemma Run_lint_cases:
  "Run_lint Lint spec = Ret ResultSuccess
   \<or> (\<exists>msgs. Run_lint Lint spec = Ret (ResultFailure msgs) \<and> msgs \<noteq> [])"
  by (auto simp: Run_lint_def Let_def)

lemma Run0_lint_cases:
  "Run0_lint kube spec = Ret ResultSuccess
   \<or> (\<exists>msgs. Run0_lint kube spec = Ret (ResultFailure msgs) \<and> msgs \<noteq> [])"
  by (auto simp: Run0_lint_def Let_def)

lemma Run_unmarshal_cases:
  "(\<exists>m. Run_unmarshal Lint Unmarshal csv = Panic m)
   \<or> (\<exists>c spec ue. csv = Some c \<and> Unmarshal c = (spec, ue)
         \<and> Run_unmarshal Lint Unmarshal csv = Run_lint Lint spec)"
  by (cases csv; cases "Unmarshal (the csv)"; cases "snd (Unmarshal (the csv))")
     (auto simp: Run_unmarshal_def)

lemma Run_csv_cases:
  "(\<exists>m. Run_csv Lint CSV Unmarshal latest = Panic m)
   \<or> (\<exists>c ce spec ue. CSV latest = Ret (Some c, ce) \<and> Unmarshal c = (spec, ue)
         \<and> Run_csv Lint CSV Unmarshal latest = Run_lint Lint spec)"
proof (cases "CSV latest")
  case (Panic m)
  then show ?thesis by (simp add: Run_csv_def)
next
  case (Ret p)
  obtain csv ce where p: "p = (csv, ce)" by (cases p)
  have eq: "Run_csv Lint CSV Unmarshal latest = Run_unmarshal Lint Unmarshal csv"
    using Ret p by (cases ce) (simp_all add: Run_csv_def)
  from Run_unmarshal_cases [of Lint Unmarshal csv] show ?thesis
    using eq Ret p by auto
qed

lemma Run_cases:
  "(\<exists>m. CSVDeployment_Run Lint CSV GV Compare Unmarshal mb = Panic m)
   \<or> (\<exists>latest c ce spec ue. CSV latest = Ret (Some c, ce) \<and> Unmarshal c = (spec, ue)
         \<and> CSVDeployment_Run Lint CSV GV Compare Unmarshal mb = Run_lint Lint spec)"
proof -
  have "\<exists>latest. CSVDeployment_Run Lint CSV GV Compare Unmarshal mb = Run_csv Lint CSV Unmarshal latest
          \<or> (\<exists>m. CSVDeployment_Run Lint CSV GV Compare Unmarshal mb = Panic m)"
    by (auto simp: CSVDeployment_Run_def split: outcome.splits sum.splits)
  then obtain latest where
    "CSVDeployment_Run Lint CSV GV Compare Unmarshal mb = Run_csv Lint CSV Unmarshal latest
      \<or> (\<exists>m. CSVDeployment_Run Lint CSV GV Compare Unmarshal mb = Panic m)" ..
  with Run_csv_cases [of Lint CSV Unmarshal latest] show ?thesis by metis
qed

lemma Run0_unmarshal_cases:
  "(\<exists>m. Run0_unmarshal kube Unmarshal csv = Panic m)
   \<or> (\<exists>c spec ue. csv = Some c \<and> Unmarshal c = (spec, ue)
         \<and> Run0_unmarshal kube Unmarshal csv = Run0_lint kube spec)"
  by (cases csv; cases "Unmarshal (the csv)"; cases "snd (Unmarshal (the csv))")
     (auto simp: Run0_unmarshal_def)

lemma Run0_csv_cases:
  "(\<exists>m. Run0_csv kube CSV Unmarshal latest = Panic m)
   \<or> (\<exists>c ce spec ue. CSV latest = Ret (Some c, ce) \<and> Unmarshal c = (spec, ue)
         \<and> Run0_csv kube CSV Unmarshal latest = Run0_lint kube spec)"
proof (cases "CSV latest")
  case (Panic m)
  then show ?thesis by (simp add: Run0_csv_def)
next
  case (Ret p)
  obtain csv ce where p: "p = (csv, ce)" by (cases p)
  have eq: "Run0_csv kube CSV Unmarshal latest = Run0_unmarshal kube Unmarshal csv"
    using Ret p by (cases ce) (simp_all add: Run0_csv_def)
  from Run0_unmarshal_cases [of kube Unmarshal csv] show ?thesis
    using eq Ret p by auto
qed

lemma Run0_cases:
  "(\<exists>m. CSVDeployment_Run0 kube CSV GV Compare Unmarshal mb = Panic m)
   \<or> (\<exists>latest c ce spec ue. CSV latest = Ret (Some c, ce) \<and> Unmarshal c = (spec, ue)
         \<and> CSVDeployment_Run0 kube CSV GV Compare Unmarshal mb = Run0_lint kube spec)"
proof -
  have "\<exists>latest. CSVDeployment_Run0 kube CSV GV Compare Unmarshal mb = Run0_csv kube CSV Unmarshal latest
          \<or> (\<exists>m. CSVDeployment_Run0 kube CSV GV Compare Unmarshal mb = Panic m)"
    by (auto simp: CSVDeployment_Run0_def split: outcome.splits sum.splits)
  then obtain latest where
    "CSVDeployment_Run0 kube CSV GV Compare Unmarshal mb = Run0_csv kube CSV Unmarshal latest
      \<or> (\<exists>m. CSVDeployment_Run0 kube CSV GV Compare Unmarshal mb = Panic m)" ..
  with Run0_csv_cases [of kube CSV Unmarshal latest] show ?thesis by metis
qed

lemma gv_simps:
  "getVersion CSV_of_name GetVersion_of_name (Some ''1.0.0'') = Ret (Inr ''v1.0.0'')"
  "getVersion CSV_of_name GetVersion_of_name (Some ''1.2.0'') = Ret (Inr ''v1.2.0'')"
  "getVersion CSV_of_name GetVersion_of_name (Some ''broken'') = Ret (Inl (ErrExternal ''no csv''))"
  by (simp_all add: getVersion_def CSV_of_name_def GetVersion_of_name_def)

text \<open>
  Claim C7, as stated: after each of the three error branches the run always goes on to
  the deployment loop. It fails on the code. With the sample collaborators, in both
  revisions: when \<open>getLatestBundle\<close> returns an error the nil bundle is dereferenced by
  \<open>ClusterServiceVersion\<close>, and when \<open>ClusterServiceVersion\<close> returns an error and a nil
  csv, reading \<open>csv.Spec\<close> dereferences nil; \<open>Run\<close> panics and no deployment is linted.
\<close>

theorem CSVDeployment_Run_panics_before_deployment_loop:
  "getLatestBundle CSV_of_name GetVersion_of_name Compare_core [Some ''1.0.0'', Some ''broken'']
     = Ret (Inl (ErrExternal ''no csv''))
   \<and> CSVDeployment_Run (\<lambda>d. \<lparr>Success = False, Reasons = [''no liveness probe'']\<rparr>)
        CSV_of_name GetVersion_of_name Compare_core
        (\<lambda>c. (\<lparr>DeploymentSpecs = [''d'']\<rparr>, None))
        \<lparr>AddonMeta = (), Bundles = [Some ''1.0.0'', Some ''broken'']\<rparr>
     = Panic ''runtime error: invalid memory address or nil pointer dereference''
   \<and> CSVDeployment_Run0
        \<lparr>HasLivenessProbes = (\<lambda>d. \<lparr>Success = False, Reasons = [''no liveness probe'']\<rparr>),
         HasReadinessProbes = (\<lambda>d. \<lparr>Success = True, Reasons = []\<rparr>),
         HasCPUResourceRequirements = (\<lambda>d. \<lparr>Success = True, Reasons = []\<rparr>),
         HasMemoryResourceRequirements = (\<lambda>d. \<lparr>Success = True, Reasons = []\<rparr>)\<rparr>
        CSV_of_name GetVersion_of_name Compare_core
        (\<lambda>c. (\<lparr>DeploymentSpecs = [''d'']\<rparr>, None))
        \<lparr>AddonMeta = (), Bundles = [Some ''1.0.0'', Some ''broken'']\<rparr>
     = Panic ''runtime error: invalid memory address or nil pointer dereference''
   \<and> getLatestBundle CSV_of_name GetVersion_of_name Compare_core [Some ''broken'']
     = Ret (Inr (Some ''broken''))
   \<and> CSV_of_name (Some ''broken'') = Ret (None, Some (ErrExternal ''no csv''))
   \<and> CSVDeployment_Run (\<lambda>d. \<lparr>Success = False, Reasons = [''no liveness probe'']\<rparr>)
        CSV_of_name GetVersion_of_name Compare_core
        (\<lambda>c. (\<lparr>DeploymentSpecs = [''d'']\<rparr>, None))
        \<lparr>AddonMeta = (), Bundles = [Some ''broken'']\<rparr>
     = Panic ''runtime error: invalid memory address or nil pointer dereference''
   \<and> CSVDeployment_Run0
        \<lparr>HasLivenessProbes = (\<lambda>d. \<lparr>Success = False, Reasons = [''no liveness probe'']\<rparr>),
         HasReadinessProbes = (\<lambda>d. \<lparr>Success = True, Reasons = []\<rparr>),
         HasCPUResourceRequirements = (\<lambda>d. \<lparr>Success = True, Reasons = []\<rparr>),
         HasMemoryResourceRequirements = (\<lambda>d. \<lparr>Success = True, Reasons = []\<rparr>)\<rparr>
        CSV_of_name GetVersion_of_name Compare_core
        (\<lambda>c. (\<lparr>DeploymentSpecs = [''d'']\<rparr>, None))
        \<lparr>AddonMeta = (), Bundles = [Some ''broken'']\<rparr>
     = Panic ''runtime error: invalid memory address or nil pointer dereference''"
proof -
  have g: "getLatestBundle CSV_of_name GetVersion_of_name Compare_core
      [Some ''1.0.0'', Some ''broken''] = Ret (Inl (ErrExternal ''no csv''))"
    by (simp add: getLatestBundle_def gv_simps)
  have g1: "getLatestBundle CSV_of_name GetVersion_of_name Compare_core [Some ''broken'']
      = Ret (Inr (Some ''broken''))"
    by (simp add: getLatestBundle_def)
  have nil_bundle: "CSV_of_name None
      = Panic ''runtime error: invalid memory address or nil pointer dereference''"
    by (simp add: CSV_of_name_def)
  have broken: "CSV_of_name (Some ''broken'') = Ret (None, Some (ErrExternal ''no csv''))"
    by (simp add: CSV_of_name_def)
  show ?thesis
    by (simp add: CSVDeployment_Run_def CSVDeployment_Run0_def Run_csv_def Run0_csv_def
        Run_unmarshal_def Run0_unmarshal_def g g1 nil_bundle broken)
qed

text \<open>
  Claim C7, amended. In both revisions of \<open>CSVDeployment.Run\<close> the results built in the
  three error branches are dropped, no branch returns, and the run goes on with the
  statement that follows, so that no branch decides the outcome: \<open>Run\<close> never returns an
  \<open>Error\<close> result, every result it returns is the one the deployment loop computes for
  the spec decoded from a cluster service version, and the outcome is the same function
  of what \<open>getLatestBundle\<close>, \<open>ClusterServiceVersion\<close> and \<open>json.Unmarshal\<close> return
  whether their errors are nil or not. The deployment loop is reached exactly when
  \<open>ClusterServiceVersion\<close> returns a csv that is not nil, hence always after an error of
  \<open>json.Unmarshal\<close>; after an error of \<open>getLatestBundle\<close> the nil bundle is what
  \<open>ClusterServiceVersion\<close> is called on, and a nil csv makes the read of \<open>csv.Spec\<close> panic.
\<close>

theorem CSVDeployment_Run_drops_error_results:
  "CSVDeployment_Run Lint CSV GV Compare Unmarshal mb \<noteq> Ret (ResultError e')
   \<and> (CSVDeployment_Run Lint CSV GV Compare Unmarshal mb = Ret r
        \<longrightarrow> (\<exists>b c ce spec ue. CSV b = Ret (Some c, ce) \<and> Unmarshal c = (spec, ue)
               \<and> Run_lint Lint spec = Ret r))
   \<and> (getLatestBundle CSV GV Compare (Bundles mb) = Ret (Inl e)
        \<longrightarrow> CSVDeployment_Run Lint CSV GV Compare Unmarshal mb = Run_csv Lint CSV Unmarshal None)
   \<and> (CSV latest = Ret (csv, Some e)
        \<longrightarrow> Run_csv Lint CSV Unmarshal latest = Run_unmarshal Lint Unmarshal csv)
   \<and> (Unmarshal c = (spec, Some e)
        \<longrightarrow> Run_unmarshal Lint Unmarshal (Some c) = Run_lint Lint spec)
   \<and> CSVDeployment_Run0 kube CSV GV Compare Unmarshal mb \<noteq> Ret (ResultError e')
   \<and> (CSVDeployment_Run0 kube CSV GV Compare Unmarshal mb = Ret r
        \<longrightarrow> (\<exists>b c ce spec ue. CSV b = Ret (Some c, ce) \<and> Unmarshal c = (spec, ue)
               \<and> Run0_lint kube spec = Ret r))
   \<and> (getLatestBundle CSV GV Compare (Bundles mb) = Ret (Inl e)
        \<longrightarrow> CSVDeployment_Run0 kube CSV GV Compare Unmarshal mb = Run0_csv kube CSV Unmarshal None)
   \<and> (CSV latest = Ret (csv, Some e)
        \<longrightarrow> Run0_csv kube CSV Unmarshal latest = Run0_unmarshal kube Unmarshal csv)
   \<and> (Unmarshal c = (spec, Some e)
        \<longrightarrow> Run0_unmarshal kube Unmarshal (Some c) = Run0_lint kube spec)
   \<and> (CSV None = Panic msg
        \<longrightarrow> Run_csv Lint CSV Unmarshal None = Panic msg
          \<and> Run0_csv kube CSV Unmarshal None = Panic msg)
   \<and> Run_unmarshal Lint Unmarshal None
        = Panic ''runtime error: invalid memory address or nil pointer dereference''
   \<and> Run0_unmarshal kube Unmarshal None
        = Panic ''runtime error: invalid memory address or nil pointer dereference''
   \<and> CSVDeployment_Run Lint CSV GV Compare Unmarshal mb
        = (case getLatestBundle CSV GV Compare (Bundles mb) of
             Panic m \<Rightarrow> Panic m
           | Ret found \<Rightarrow>
               (case CSV (case found of Inl failed \<Rightarrow> None | Inr b \<Rightarrow> b) of
                  Panic m \<Rightarrow> Panic m
                | Ret (None, ce) \<Rightarrow>
                    Panic ''runtime error: invalid memory address or nil pointer dereference''
                | Ret (Some c, ce) \<Rightarrow> Run_lint Lint (fst (Unmarshal c))))
   \<and> CSVDeployment_Run0 kube CSV GV Compare Unmarshal mb
        = (case getLatestBundle CSV GV Compare (Bundles mb) of
             Panic m \<Rightarrow> Panic m
           | Ret found \<Rightarrow>
               (case CSV (case found of Inl failed \<Rightarrow> None | Inr b \<Rightarrow> b) of
                  Panic m \<Rightarrow> Panic m
                | Ret (None, ce) \<Rightarrow>
                    Panic ''runtime error: invalid memory address or nil pointer dereference''
                | Ret (Some c, ce) \<Rightarrow> Run0_lint kube (fst (Unmarshal c))))"
proof -
  have a: "CSVDeployment_Run Lint CSV GV Compare Unmarshal mb \<noteq> Ret (ResultError e')"
    using Run_cases [of Lint CSV GV Compare Unmarshal mb] Run_lint_cases [of Lint] 
    by (metis Result.distinct(3,5) outcome.distinct(1) outcome.inject(2))
  have b: "CSVDeployment_Run Lint CSV GV Compare Unmarshal mb = Ret r
        \<longrightarrow> (\<exists>b c ce spec ue. CSV b = Ret (Some c, ce) \<and> Unmarshal c = (spec, ue)
               \<and> Run_lint Lint spec = Ret r)"
    using Run_cases [of Lint CSV GV Compare Unmarshal mb] by (metis outcome.distinct(1))
  have a0: "CSVDeployment_Run0 kube CSV GV Compare Unmarshal mb \<noteq> Ret (ResultError e')"
    using Run0_cases [of kube CSV GV Compare Unmarshal mb] Run0_lint_cases [of kube] 
    by (metis Result.distinct(3,5) outcome.distinct(1) outcome.inject(2))
  have b0: "CSVDeployment_Run0 kube CSV GV Compare Unmarshal mb = Ret r
        \<longrightarrow> (\<exists>b c ce spec ue. CSV b = Ret (Some c, ce) \<and> Unmarshal c = (spec, ue)
               \<and> Run0_lint kube spec = Ret r)"
    using Run0_cases [of kube CSV GV Compare Unmarshal mb] by (metis outcome.distinct(1))
  have closed: "CSVDeployment_Run Lint CSV GV Compare Unmarshal mb
        = (case getLatestBundle CSV GV Compare (Bundles mb) of
             Panic m \<Rightarrow> Panic m
           | Ret found \<Rightarrow>
               (case CSV (case found of Inl failed \<Rightarrow> None | Inr b \<Rightarrow> b) of
                  Panic m \<Rightarrow> Panic m
                | Ret (None, ce) \<Rightarrow>
                    Panic ''runtime error: invalid memory address or nil pointer dereference''
                | Ret (Some c, ce) \<Rightarrow> Run_lint Lint (fst (Unmarshal c))))"
    by (auto simp: CSVDeployment_Run_def Run_csv_def Run_unmarshal_def
        split: outcome.splits sum.splits option.splits prod.splits)
  have closed0: "CSVDeployment_Run0 kube CSV GV Compare Unmarshal mb
        = (case getLatestBundle CSV GV Compare (Bundles mb) of
             Panic m \<Rightarrow> Panic m
           | Ret found \<Rightarrow>
               (case CSV (case found of Inl failed \<Rightarrow> None | Inr b \<Rightarrow> b) of
                  Panic m \<Rightarrow> Panic m
                | Ret (None, ce) \<Rightarrow>
                    Panic ''runtime error: invalid memory address or nil pointer dereference''
                | Ret (Some c, ce) \<Rightarrow> Run0_lint kube (fst (Unmarshal c))))"
    by (auto simp: CSVDeployment_Run0_def Run0_csv_def Run0_unmarshal_def
        split: outcome.splits sum.splits option.splits prod.splits)
  have steps: "(getLatestBundle CSV GV Compare (Bundles mb) = Ret (Inl e)
        \<longrightarrow> CSVDeployment_Run Lint CSV GV Compare Unmarshal mb = Run_csv Lint CSV Unmarshal None)
   \<and> (CSV latest = Ret (csv, Some e)
        \<longrightarrow> Run_csv Lint CSV Unmarshal latest = Run_unmarshal Lint Unmarshal csv)
   \<and> (Unmarshal c = (spec, Some e)
        \<longrightarrow> Run_unmarshal Lint Unmarshal (Some c) = Run_lint Lint spec)"
    by (simp add: CSVDeployment_Run_def Run_csv_def Run_unmarshal_def)
  have steps0: "(getLatestBundle CSV GV Compare (Bundles mb) = Ret (Inl e)
        \<longrightarrow> CSVDeployment_Run0 kube CSV GV Compare Unmarshal mb = Run0_csv kube CSV Unmarshal None)
   \<and> (CSV latest = Ret (csv, Some e)
        \<longrightarrow> Run0_csv kube CSV Unmarshal latest = Run0_unmarshal kube Unmarshal csv)
   \<and> (Unmarshal c = (spec, Some e)
        \<longrightarrow> Run0_unmarshal kube Unmarshal (Some c) = Run0_lint kube spec)"
    by (simp add: CSVDeployment_Run0_def Run0_csv_def Run0_unmarshal_def)
  have nils: "(CSV None = Panic msg
        \<longrightarrow> Run_csv Lint CSV Unmarshal None = Panic msg
          \<and> Run0_csv kube CSV Unmarshal None = Panic msg)
   \<and> Run_unmarshal Lint Unmarshal None
        = Panic ''runtime error: invalid memory address or nil pointer dereference''
   \<and> Run0_unmarshal kube Unmarshal None
        = Panic ''runtime error: invalid memory address or nil pointer dereference''"
    by (simp add: Run_csv_def Run0_csv_def Run_unmarshal_def Run0_unmarshal_def)
  from a b steps a0 b0 steps0 nils closed closed0 show ?thesis
    by (intro conjI) (elim conjE; assumption)+
qed

text \<open>
  With the sample collaborators: an error of \<open>getLatestBundle\<close> and an error of
  \<open>ClusterServiceVersion\<close> both end in a nil pointer dereference, and after an error of
  \<open>json.Unmarshal\<close> the result is the failure the linter reports.
\<close>

theorem CSVDeployment_Run_drops_error_results_witness:
  "getLatestBundle CSV_of_name GetVersion_of_name Compare_core [Some ''1.0.0'', Some ''broken'']
     = Ret (Inl (ErrExternal ''no csv''))
   \<and> CSVDeployment_Run (\<lambda>d. \<lparr>Success = False, Reasons = [''no liveness probe'']\<rparr>)
        CSV_of_name GetVersion_of_name Compare_core
        (\<lambda>c. (\<lparr>DeploymentSpecs = [''d'']\<rparr>, Some (ErrExternal ''bad json'')))
        \<lparr>AddonMeta = (), Bundles = [Some ''1.0.0'', Some ''broken'']\<rparr>
     = Panic ''runtime error: invalid memory address or nil pointer dereference''
   \<and> CSV_of_name (Some ''broken'') = Ret (None, Some (ErrExternal ''no csv''))
   \<and> CSVDeployment_Run (\<lambda>d. \<lparr>Success = False, Reasons = [''no liveness probe'']\<rparr>)
        CSV_of_name GetVersion_of_name Compare_core
        (\<lambda>c. (\<lparr>DeploymentSpecs = [''d'']\<rparr>, Some (ErrExternal ''bad json'')))
        \<lparr>AddonMeta = (), Bundles = [Some ''broken'']\<rparr>
     = Panic ''runtime error: invalid memory address or nil pointer dereference''
   \<and> CSVDeployment_Run (\<lambda>d. \<lparr>Success = False, Reasons = [''no liveness probe'']\<rparr>)
        CSV_of_name GetVersion_of_name Compare_core
        (\<lambda>c. (\<lparr>DeploymentSpecs = [''d'']\<rparr>, Some (ErrExternal ''bad json'')))
        \<lparr>AddonMeta = (), Bundles = [Some ''1.0.0'']\<rparr>
     = Ret (ResultFailure [''no liveness probe''])"
proof -
  let ?Lint = "\<lambda>d :: string. \<lparr>Success = False, Reasons = [''no liveness probe'']\<rparr>"
  let ?U = "\<lambda>c :: string. (\<lparr>DeploymentSpecs = [''d'']\<rparr>, Some (ErrExternal ''bad json''))"
  let ?mb = "\<lparr>AddonMeta = (), Bundles = [Some ''1.0.0'', Some ''broken'']\<rparr>"
  have g: "getLatestBundle CSV_of_name GetVersion_of_name Compare_core (Bundles ?mb)
     = Ret (Inl (ErrExternal ''no csv''))"
    by (simp add: getLatestBundle_def gv_simps)
  have c: "CSV_of_name (Some ''broken'') = Ret (None, Some (ErrExternal ''no csv''))"
    by (simp add: CSV_of_name_def)
  have u: "?U ''1.0.0'' = (\<lparr>DeploymentSpecs = [''d'']\<rparr>, Some (ErrExternal ''bad json''))"
    by simp
  note t = CSVDeployment_Run_drops_error_results [where Lint = "?Lint" and CSV = "CSV_of_name"
      and GV = "GetVersion_of_name" and Compare = "Compare_core" and Unmarshal = "?U"]
  note after_bundle = t [where mb = "?mb" and e = "ErrExternal ''no csv''",
      THEN conjunct2, THEN conjunct2, THEN conjunct1, rule_format]
  note after_csv = t [where latest = "Some ''broken''" and csv = "None" and e = "ErrExternal ''no csv''",
      THEN conjunct2, THEN conjunct2, THEN conjunct2, THEN conjunct1, rule_format]
  note after_unmarshal = t [where c = "''1.0.0''" and e = "ErrExternal ''bad json''"
      and spec = "\<lparr>DeploymentSpecs = [''d'']\<rparr>",
      THEN conjunct2, THEN conjunct2, THEN conjunct2, THEN conjunct2, THEN conjunct1, rule_format]
  have 1: "CSVDeployment_Run ?Lint CSV_of_name GetVersion_of_name Compare_core ?U ?mb
      = Run_csv ?Lint CSV_of_name ?U None"
    by (rule after_bundle [OF g])
  have 2: "Run_csv ?Lint CSV_of_name ?U (Some ''broken'') = Run_unmarshal ?Lint ?U None"
    by (rule after_csv [OF c])
  have 3: "Run_unmarshal ?Lint ?U (Some ''1.0.0'') = Run_lint ?Lint \<lparr>DeploymentSpecs = [''d'']\<rparr>"
    by (rule after_unmarshal [OF u])
  have r1: "Run_csv ?Lint CSV_of_name ?U None
      = Panic ''runtime error: invalid memory address or nil pointer dereference''"
    by (simp add: Run_csv_def CSV_of_name_def)
  have r2: "CSVDeployment_Run ?Lint CSV_of_name GetVersion_of_name Compare_core ?U
        \<lparr>AddonMeta = (), Bundles = [Some ''broken'']\<rparr> = Run_csv ?Lint CSV_of_name ?U (Some ''broken'')"
    by (simp add: CSVDeployment_Run_def getLatestBundle_def)
  have r2': "Run_unmarshal ?Lint ?U None
      = Panic ''runtime error: invalid memory address or nil pointer dereference''"
    by (simp add: Run_unmarshal_def)
  have r3: "CSVDeployment_Run ?Lint CSV_of_name GetVersion_of_name Compare_core ?U
        \<lparr>AddonMeta = (), Bundles = [Some ''1.0.0'']\<rparr> = Run_unmarshal ?Lint ?U (Some ''1.0.0'')"
    by (simp add: CSVDeployment_Run_def getLatestBundle_def Run_csv_def CSV_of_name_def)
  have r3': "Run_lint ?Lint \<lparr>DeploymentSpecs = [''d'']\<rparr> = Ret (ResultFailure [''no liveness probe''])"
    by (simp add: Run_lint_def)
  from g c 1 2 3 r1 r2 r2' r3 r3' show ?thesis by simp
qed

end
